theory Spec2Isabelle
  imports Main "HOL-Library.Sublist"
begin

section \<open>HireBot backend: AI gateway and interview-analysis workflow\<close>

text \<open>
  A shallow embedding of \<^verbatim>\<open>hirebot-backend/index.js\<close>: the retry loop of
  \<^verbatim>\<open>callGeminiAPI\<close>, the session record kept in \<^verbatim>\<open>analysisSessions\<close>, and the
  route handlers that run, force-fallback and retry the analysis stages.

  Conventions of the embedding.
  \<^item> Sizes are byte counts (\<open>nat\<close>). The source compares \<^verbatim>\<open>size / (1024 * 1024) > c\<close>
    on doubles; dividing by a power of two is exact, so the test is \<open>size > c * 1048576\<close>.
  \<^item> A JavaScript value used as a condition is truthy when it is defined and not the
    empty string; option values model \<^verbatim>\<open>undefined\<close> as \<open>None\<close>.
  \<^item> Delays are the millisecond arguments of \<^verbatim>\<open>delay\<close>, recorded in order; network calls
    (\<^verbatim>\<open>axios.post\<close>) are counted.
  \<^item> Console logging is not modelled.
\<close>

subsection \<open>Strings\<close>

text \<open>\<^verbatim>\<open>String.prototype.includes\<close>: the argument occurs as a contiguous substring.\<close>

fun str_includes :: "string \<Rightarrow> string \<Rightarrow> bool" where
  "str_includes [] sub = (sub = [])"
| "str_includes (c # cs) sub = (prefix sub (c # cs) \<or> str_includes cs sub)"

text \<open>Truthiness of a possibly undefined string.\<close>

fun truthy :: "string option \<Rightarrow> bool" where
  "truthy None = False"
| "truthy (Some v) = (v \<noteq> [])"

text \<open>\<^verbatim>\<open>path.basename\<close> on a POSIX path: the part after the last slash.\<close>

definition basename :: "string \<Rightarrow> string" where
  "basename p = rev (takeWhile (\<lambda>c. c \<noteq> CHR ''/'') (rev p))"

subsection \<open>The AI gateway: \<^verbatim>\<open>callGeminiAPI\<close>\<close>

text \<open>
  The attachment \<^verbatim>\<open>fileData = { mimeType, data }\<close>. The base64 text \<^verbatim>\<open>data\<close> is kept
  as the number of bytes it decodes to, which is all the gateway reads of it
  (\<^verbatim>\<open>Buffer.byteLength(fileData.data, 'base64')\<close>).
\<close>

record fileData =
  mimeType :: string
  byteLength :: nat

text \<open>
  What one \<^verbatim>\<open>axios.post\<close> yields. A response with \<^verbatim>\<open>candidates[0].content\<close> carries the
  value of \<^verbatim>\<open>content.parts[0].text\<close>, which the gateway returns without a test: it is
  \<open>None\<close> when the first part has no text. A response may lack the content. A rejected
  promise carries \<^verbatim>\<open>error.response?.data?.error?.code\<close> (absent for network errors and
  time-outs) and the message \<^verbatim>\<open>error.response?.data?.error?.message || error.message\<close>;
  an exception thrown while the response is read (a content without parts) reaches the
  same \<^verbatim>\<open>catch\<close> with no code and is a rejection of that form.
\<close>

datatype provider_response =
  Candidates "string option"
| NoCandidates
| Rejected "int option" string

text \<open>The provider as seen by one gateway call: the response to each attempt number.\<close>

type_synonym provider = "nat \<Rightarrow> provider_response"

datatype gw_result =
  Returned string
| ReturnedUndefined
| Thrown string

record gw_trace =
  calls :: nat
  waits :: "nat list"

definition no_trace :: gw_trace where
  "no_trace = \<lparr>calls = 0, waits = []\<rparr>"

datatype attempt_outcome = Got "string option" | Caught "int option" string

text \<open>
  The body of the \<^verbatim>\<open>try\<close> block of one attempt. The size check throws before the request
  is posted; every throw inside the block lands in the \<^verbatim>\<open>catch\<close> of the same attempt.
\<close>

definition try_attempt ::
  "provider \<Rightarrow> fileData option \<Rightarrow> nat \<Rightarrow> gw_trace \<Rightarrow> attempt_outcome \<times> gw_trace" where
  "try_attempt P fd attempt tr =
     (if (case fd of None \<Rightarrow> False | Some f \<Rightarrow> byteLength f > 20 * (1024 * 1024))
      then (Caught None ''File too large for processing. Please use a smaller file (< 20MB).'', tr)
      else (case P attempt of
              Candidates t \<Rightarrow> (Got t, tr\<lparr>calls := calls tr + 1\<rparr>)
            | NoCandidates \<Rightarrow>
                (Caught None ''Invalid response format from Gemini API'', tr\<lparr>calls := calls tr + 1\<rparr>)
            | Rejected c m \<Rightarrow> (Caught c m, tr\<lparr>calls := calls tr + 1\<rparr>)))"

text \<open>\<^verbatim>\<open>waitTimes[attempt - 1] || 300000\<close> with \<^verbatim>\<open>waitTimes = [30000, 120000, 300000]\<close>.\<close>

definition waitTimes :: "nat list" where
  "waitTimes = [30000, 120000, 300000]"

definition overload_wait :: "nat \<Rightarrow> nat" where
  "overload_wait attempt =
     (if 1 \<le> attempt \<and> attempt - 1 < length waitTimes then waitTimes ! (attempt - 1)
      else 300000)"

datatype verdict = Continue nat | Throw string

text \<open>The \<^verbatim>\<open>catch\<close> block: wait and go on to the next attempt, or throw.\<close>

definition on_error :: "nat \<Rightarrow> nat \<Rightarrow> int option \<Rightarrow> string \<Rightarrow> verdict" where
  "on_error retries attempt errorCode errorMessage =
     (if errorCode = Some 503 \<or> str_includes errorMessage ''overloaded'' then
        (if attempt < retries then Continue (overload_wait attempt) else Throw ''OVERLOADED'')
      else if errorCode = Some 429 then
        (if attempt < retries then Continue (30000 * attempt) else Throw ''RATE_LIMITED'')
      else if errorCode = Some 400 then Throw (''INVALID_REQUEST: '' @ errorMessage)
      else if attempt = retries then Throw (''FAILED_AFTER_RETRIES: '' @ errorMessage)
      else Continue (5000 * attempt))"

text \<open>
  \<^verbatim>\<open>for (let attempt = 1; attempt <= retries; attempt++)\<close>. Leaving the loop without a
  return makes the function return \<^verbatim>\<open>undefined\<close>, and so does returning a text that is
  \<^verbatim>\<open>undefined\<close>.
\<close>

fun returned :: "string option \<Rightarrow> gw_result" where
  "returned (Some t) = Returned t"
| "returned None = ReturnedUndefined"

function callGeminiAPI_loop ::
  "provider \<Rightarrow> fileData option \<Rightarrow> nat \<Rightarrow> nat \<Rightarrow> gw_trace \<Rightarrow> gw_result \<times> gw_trace" where
  "callGeminiAPI_loop P fd retries attempt tr =
     (if attempt \<le> retries then
        (case try_attempt P fd attempt tr of
           (Got t, tr1) \<Rightarrow> (returned t, tr1)
         | (Caught c m, tr1) \<Rightarrow>
             (case on_error retries attempt c m of
                Throw e \<Rightarrow> (Thrown e, tr1)
              | Continue w \<Rightarrow>
                  callGeminiAPI_loop P fd retries (attempt + 1) (tr1\<lparr>waits := waits tr1 @ [w]\<rparr>)))
      else (ReturnedUndefined, tr))"
  by pat_completeness auto
termination
  by (relation "measure (\<lambda>(P, fd, retries, attempt, tr). Suc retries - attempt)") auto

declare callGeminiAPI_loop.simps [simp del]

definition callGeminiAPI :: "provider \<Rightarrow> fileData option \<Rightarrow> nat \<Rightarrow> gw_result \<times> gw_trace" where
  "callGeminiAPI P fd retries = callGeminiAPI_loop P fd retries 1 no_trace"

subsection \<open>Files and fallback content\<close>

text \<open>
  \<^verbatim>\<open>path.extname(filePath).toLowerCase()\<close> for the paths the upload storage writes
  (\<^verbatim>\<open>uploads/<field>-<suffix><ext>\<close>), and the table of \<^verbatim>\<open>getMimeType\<close>.
\<close>

definition toLowerCase :: "string \<Rightarrow> string" where
  "toLowerCase s =
     map (\<lambda>c. if 65 \<le> (of_char c :: nat) \<and> (of_char c :: nat) \<le> 90
              then char_of ((of_char c :: nat) + 32) else c) s"

definition extname :: "string \<Rightarrow> string" where
  "extname p =
     (let b = basename p; e = rev (takeWhile (\<lambda>c. c \<noteq> CHR ''.'') (rev b))
      in if CHR ''.'' \<in> set b \<and> length e + 1 < length b then CHR ''.'' # e else [])"

definition mimeTypes :: "(string \<times> string) list" where
  "mimeTypes =
     [(''.pdf'', ''application/pdf''),
      (''.doc'', ''application/msword''),
      (''.docx'', ''application/vnd.openxmlformats-officedocument.wordprocessingml.document''),
      (''.txt'', ''text/plain''),
      (''.mp4'', ''video/mp4''),
      (''.avi'', ''video/x-msvideo''),
      (''.mov'', ''video/quicktime''),
      (''.wmv'', ''video/x-ms-wmv''),
      (''.webm'', ''video/webm''),
      (''.mp3'', ''audio/mpeg''),
      (''.wav'', ''audio/wav''),
      (''.wave'', ''audio/wav''),
      (''.aac'', ''audio/aac''),
      (''.ogg'', ''audio/ogg''),
      (''.flac'', ''audio/flac''),
      (''.m4a'', ''audio/m4a'')]"

definition getMimeType :: "string \<Rightarrow> string" where
  "getMimeType p =
     (case map_of mimeTypes (toLowerCase (extname p)) of
        Some t \<Rightarrow> t
      | None \<Rightarrow> ''application/octet-stream'')"

datatype media = Audio | Video

fun media_name :: "media \<Rightarrow> string" where
  "media_name Audio = ''audio''"
| "media_name Video = ''video''"

fun media_upper :: "media \<Rightarrow> string" where
  "media_upper Audio = ''AUDIO''"
| "media_upper Video = ''VIDEO''"

text \<open>
  The fallback generators return a fixed markdown template. The embedding keeps the
  heading and the lines that interpolate an argument; the constant lines between them
  are left out.
\<close>

definition generateFallbackTranscription :: "string \<Rightarrow> media \<Rightarrow> string \<Rightarrow> string" where
  "generateFallbackTranscription fileName mt jd =
     ''# '' @ media_upper mt @ '' TRANSCRIPTION - FALLBACK MODE; File: '' @ fileName
       @ ''; Type: '' @ media_upper mt @ '' file; Retry the '' @ media_name mt
       @ '' transcription later; To get the actual transcription''
       @ (if mt = Video then '' and face analysis'' else [])
       @ '', please retry this step when the AI service is available.''"

definition generateFallbackFaceAnalysis :: "string \<Rightarrow> string \<Rightarrow> string" where
  "generateFallbackFaceAnalysis fileName jd =
     ''# FACE ANALYSIS - FALLBACK MODE; File: '' @ fileName
       @ ''; To get the actual face analysis, please retry this step when the AI service is available.''"

definition generateFallbackCVAnalysis :: "string \<Rightarrow> string \<Rightarrow> string" where
  "generateFallbackCVAnalysis fileName jd =
     ''# CV ANALYSIS - FALLBACK MODE; File: '' @ fileName @ ''; Job Role: '' @ take 100 jd
       @ ''...; To get the detailed CV analysis, please retry this step when the AI service is available.''"

subsection \<open>Sessions\<close>

text \<open>
  One entry of \<^verbatim>\<open>analysisSessions\<close>. \<^verbatim>\<open>results\<close> is the object whose properties the
  stages assign and \<^verbatim>\<open>delete\<close>. A property holding \<^verbatim>\<open>undefined\<close> is not told apart from
  a missing one: the source reads \<^verbatim>\<open>results\<close> only through truthiness tests, template
  interpolation and JSON serialisation.
\<close>

record session =
  sessionId :: string
  audioPath :: "string option"
  videoPath :: "string option"
  cvPath :: string
  jobDescription :: string
  mediaType :: media
  status :: string
  createdAt :: nat
  completedAt :: "nat option"
  results :: "string \<rightharpoonup> string"

record upload =
  filePath :: string
  fileSize :: nat
  originalname :: string

record init_request =
  body_jobDescription :: "string option"
  audio_file :: "upload option"
  video_file :: "upload option"
  cv_file :: "upload option"

text \<open>
  The response of a handler: \<^verbatim>\<open>res.json({success: true, nextStep, ...})\<close> with its fallback
  flag, \<^verbatim>\<open>res.status(code).json({error, ...})\<close> with the list it carries
  (\<^verbatim>\<open>availableSteps\<close> or \<^verbatim>\<open>missing\<close>, empty when there is none), or \<^verbatim>\<open>res.redirect\<close>.
\<close>

datatype reply =
  Done "string option" bool
| Fail nat string "string list"
| Redirect nat string

text \<open>
  The prompts, by the values their templates interpolate. A section that the template
  includes only when \<^verbatim>\<open>results.faceAnalysis\<close> is truthy is an option.
\<close>

datatype prompt =
  CvPrompt
| TranscriptionPrompt media
| FacePrompt
| TechnicalPrompt string string string "string option"
| CommunicationPrompt string "string option"
| FinalReportPrompt string string string string string "string option"

text \<open>
  What a handler reads from outside the process: \<^verbatim>\<open>fs.stat(p).size\<close> and the bytes
  \<^verbatim>\<open>fs.readFile(p)\<close> returns (\<open>None\<close> when the promise rejects), the provider's answer
  to a request at each attempt, and the clock.
\<close>

record env =
  stat :: "string \<Rightarrow> nat option"
  readFile :: "string \<Rightarrow> nat option"
  gemini :: "prompt \<Rightarrow> fileData option \<Rightarrow> provider"
  now :: nat

type_synonym outcome = "session \<times> reply \<times> gw_trace"

definition MB :: nat where
  "MB = 1024 * 1024"

text \<open>\<^verbatim>\<open>`${v}`\<close> for a possibly undefined string.\<close>

fun interp :: "string option \<Rightarrow> string" where
  "interp None = ''undefined''"
| "interp (Some v) = v"

text \<open>\<^verbatim>\<open>session.results.faceAnalysis ? ... : ''\<close>.\<close>

definition faceAnalysisSection :: "session \<Rightarrow> string option" where
  "faceAnalysisSection s =
     (if truthy (results s ''faceAnalysis'') then results s ''faceAnalysis'' else None)"

text \<open>\<^verbatim>\<open>session.videoPath || session.audioPath\<close>.\<close>

definition mediaPath :: "session \<Rightarrow> string option" where
  "mediaPath s = (if truthy (videoPath s) then videoPath s else audioPath s)"

text \<open>\<^verbatim>\<open>session.results[key] = value\<close> with the value a gateway call returned.\<close>

definition assign_result :: "string \<Rightarrow> string option \<Rightarrow> session \<Rightarrow> session" where
  "assign_result key v s = s\<lparr>results := (results s)(key := v)\<rparr>"

text \<open>The stage handlers' test for an overload: \<^verbatim>\<open>includes('OVERLOADED') || includes('503')\<close>.\<close>

definition overload_message :: "string \<Rightarrow> bool" where
  "overload_message m = (str_includes m ''OVERLOADED'' \<or> str_includes m ''503'')"

text \<open>\<^verbatim>\<open>fileToBase64\<close> followed by \<^verbatim>\<open>callGeminiAPI\<close> with the file attached.\<close>

definition call_with_file ::
  "env \<Rightarrow> prompt \<Rightarrow> string \<Rightarrow> nat \<Rightarrow> gw_result \<times> gw_trace" where
  "call_with_file e pr p retries =
     (case readFile e p of
        None \<Rightarrow> (Thrown ''Failed to read file'', no_trace)
      | Some n \<Rightarrow>
          (let fd = Some \<lparr>mimeType = getMimeType p, byteLength = n\<rparr>
           in callGeminiAPI (gemini e pr fd) fd retries))"

text \<open>The value a gateway call that did not throw hands to its caller.\<close>

fun returned_value :: "gw_result \<Rightarrow> string option" where
  "returned_value (Returned t) = Some t"
| "returned_value ReturnedUndefined = None"
| "returned_value (Thrown m) = None"

subsection \<open>Session creation: \<^verbatim>\<open>POST /api/initialize\<close>\<close>

text \<open>
  The session id (\<^verbatim>\<open>Date.now()\<close> and a random suffix) and the creation time are
  arguments. The handler makes no gateway call; its trace is the empty one.
\<close>

definition initialize :: "init_request \<Rightarrow> string \<Rightarrow> nat \<Rightarrow> session option \<times> reply \<times> gw_trace" where
  "initialize req sid t =
     (case cv_file req of
        None \<Rightarrow>
          (None, Fail 400 ''Missing required fields: (audio OR video), cv, and jobDescription are required'' [], no_trace)
      | Some cvFile \<Rightarrow>
          if (audio_file req = None \<and> video_file req = None) \<or> \<not> truthy (body_jobDescription req) then
            (None, Fail 400 ''Missing required fields: (audio OR video), cv, and jobDescription are required'' [], no_trace)
          else if (case video_file req of None \<Rightarrow> False | Some v \<Rightarrow> fileSize v > 10 * MB) then
            (None, Fail 400 ''Video file too large'' [], no_trace)
          else
            (Some \<lparr>sessionId = sid,
                   audioPath = map_option filePath (audio_file req),
                   videoPath = map_option filePath (video_file req),
                   cvPath = filePath cvFile,
                   jobDescription = interp (body_jobDescription req),
                   mediaType = (if video_file req \<noteq> None then Video else Audio),
                   status = ''initialized'',
                   createdAt = t,
                   completedAt = None,
                   results = Map.empty\<rparr>,
             Done None False, no_trace))"

subsection \<open>Stage handlers\<close>

text \<open>
  \<^verbatim>\<open>POST /api/analyze-cv/:sessionId\<close>, for a session that exists. Each of the three
  handlers with an attachment is written in two parts: the inner \<^verbatim>\<open>try\<close> block, which
  yields what the gateway returned or what was thrown, and the rest of the handler (the
  inner \<^verbatim>\<open>catch\<close> for a throw, the assignments and the response otherwise).
\<close>

definition analyze_cv_settle :: "session \<Rightarrow> gw_result \<times> gw_trace \<Rightarrow> outcome" where
  "analyze_cv_settle s1 out =
     (case out of
        (Thrown m, tr) \<Rightarrow>
          if overload_message m then
            (assign_result ''cvAnalysis''
               (Some (generateFallbackCVAnalysis (basename (cvPath s1)) (jobDescription s1)))
               (s1\<lparr>status := ''cv_analyzed_fallback''\<rparr>),
             Done (Some ''media_transcription'') True, tr)
          else (s1\<lparr>status := ''error''\<rparr>, Fail 500 ''Failed to analyze CV'' [], tr)
      | (r, tr) \<Rightarrow>
          ((assign_result ''cvAnalysis'' (returned_value r) s1)\<lparr>status := ''cv_analyzed''\<rparr>,
           Done (Some ''media_transcription'') False, tr))"

definition analyze_cv :: "env \<Rightarrow> session \<Rightarrow> outcome" where
  "analyze_cv e s =
     (let s1 = s\<lparr>status := ''analyzing_cv''\<rparr>
      in analyze_cv_settle s1 (call_with_file e CvPrompt (cvPath s1) 2))"

text \<open>
  \<^verbatim>\<open>POST /api/transcribe-media/:sessionId\<close>. In the inner \<^verbatim>\<open>catch\<close>, the branch for a
  message with \<^verbatim>\<open>File too large\<close> reads \<^verbatim>\<open>processingSizeLimit\<close>, a \<^verbatim>\<open>const\<close> of the \<^verbatim>\<open>try\<close>
  block that is out of scope there: the reference throws, and the outer \<^verbatim>\<open>catch\<close> answers.
  A rejected \<^verbatim>\<open>fs.stat\<close> reaches the outer \<^verbatim>\<open>catch\<close> too.
\<close>

definition transcribe_media_try :: "env \<Rightarrow> media \<Rightarrow> string \<Rightarrow> nat \<Rightarrow> gw_result \<times> gw_trace" where
  "transcribe_media_try e mt p sz =
     (if sz > (if mt = Audio then 20 else 8) * MB
      then (Thrown (''File too large for current API conditions (''
                      @ (if mt = Audio then ''20'' else ''8'') @ ''MB limit)''),
            no_trace)
      else call_with_file e (TranscriptionPrompt mt) p 3)"

definition transcribe_media_settle ::
  "session \<Rightarrow> media \<Rightarrow> string \<Rightarrow> gw_result \<times> gw_trace \<Rightarrow> outcome" where
  "transcribe_media_settle s1 mt p out =
     (case out of
        (Thrown m, tr) \<Rightarrow>
          if overload_message m then
            (assign_result ''transcription''
               (Some (generateFallbackTranscription (basename p) mt (jobDescription s1)))
               (s1\<lparr>status := media_name mt @ ''_transcribed_fallback''\<rparr>),
             Done (Some (if mt = Video then ''face_analysis'' else ''technical_analysis'')) True, tr)
          else if str_includes m ''RATE_LIMITED'' then
            (s1\<lparr>status := ''error''\<rparr>, Fail 429 ''Rate limit exceeded'' [], tr)
          else if str_includes m ''File too large'' then
            (s1\<lparr>status := ''error''\<rparr>, Fail 500 ''Failed to transcribe media'' [], tr)
          else
            (s1\<lparr>status := ''error''\<rparr>, Fail 500 (''Failed to transcribe '' @ media_name mt) [], tr)
      | (r, tr) \<Rightarrow>
          ((assign_result ''transcription'' (returned_value r) s1)
             \<lparr>status := media_name mt @ ''_transcribed''\<rparr>,
           Done (Some (if mt = Video then ''face_analysis'' else ''technical_analysis'')) False, tr))"

definition transcribe_media :: "env \<Rightarrow> session \<Rightarrow> outcome" where
  "transcribe_media e s =
     (let s1 = s\<lparr>status := ''transcribing_media''\<rparr>; mt = mediaType s1 in
      case mediaPath s1 of
        None \<Rightarrow> (s1, Fail 400 ''No media file found for transcription'' [], no_trace)
      | Some p \<Rightarrow>
          if p = [] then (s1, Fail 400 ''No media file found for transcription'' [], no_trace)
          else
            (case stat e p of
               None \<Rightarrow> (s1\<lparr>status := ''error''\<rparr>, Fail 500 ''Failed to transcribe media'' [], no_trace)
             | Some sz \<Rightarrow>
                 if sz > (if mt = Audio then 25 else 10) * MB then
                   (s1\<lparr>status := ''error''\<rparr>,
                    Fail 400 (media_name mt @ '' file too large for processing'') [], no_trace)
                 else transcribe_media_settle s1 mt p (transcribe_media_try e mt p sz)))"

text \<open>\<^verbatim>\<open>POST /api/face-analysis/:sessionId\<close>.\<close>

definition face_analysis_try :: "env \<Rightarrow> string \<Rightarrow> nat \<Rightarrow> gw_result \<times> gw_trace" where
  "face_analysis_try e p sz =
     (if sz > 8 * MB
      then (Thrown ''File too large for face analysis processing (8MB limit)'', no_trace)
      else call_with_file e FacePrompt p 3)"

definition face_analysis_settle :: "session \<Rightarrow> string \<Rightarrow> gw_result \<times> gw_trace \<Rightarrow> outcome" where
  "face_analysis_settle s1 p out =
     (case out of
        (Thrown m, tr) \<Rightarrow>
          if overload_message m then
            (assign_result ''faceAnalysis''
               (Some (generateFallbackFaceAnalysis (basename p) (jobDescription s1)))
               (s1\<lparr>status := ''face_analyzed_fallback''\<rparr>),
             Done (Some ''technical_analysis'') True, tr)
          else if str_includes m ''RATE_LIMITED'' then
            (s1\<lparr>status := ''error''\<rparr>, Fail 429 ''Rate limit exceeded'' [], tr)
          else if str_includes m ''File too large'' then
            (s1\<lparr>status := ''error''\<rparr>, Fail 400 ''File too large for face analysis'' [], tr)
          else (s1\<lparr>status := ''error''\<rparr>, Fail 500 ''Failed to analyze face'' [], tr)
      | (r, tr) \<Rightarrow>
          ((assign_result ''faceAnalysis'' (returned_value r) s1)\<lparr>status := ''face_analyzed''\<rparr>,
           Done (Some ''technical_analysis'') False, tr))"

definition face_analysis :: "env \<Rightarrow> session \<Rightarrow> outcome" where
  "face_analysis e s =
     (case (if mediaType s \<noteq> Video \<or> \<not> truthy (videoPath s) then None else videoPath s) of
        None \<Rightarrow> (s, Fail 400 ''Face analysis only available for video files'' [], no_trace)
      | Some p \<Rightarrow>
          (let s1 = s\<lparr>status := ''analyzing_face''\<rparr> in
           case stat e p of
             None \<Rightarrow> (s1\<lparr>status := ''error''\<rparr>, Fail 500 ''Failed to analyze face'' [], no_trace)
           | Some sz \<Rightarrow>
               if sz > 10 * MB then
                 (s1\<lparr>status := ''error''\<rparr>, Fail 400 ''Video file too large for face analysis'' [], no_trace)
               else face_analysis_settle s1 p (face_analysis_try e p sz)))"

text \<open>
  \<^verbatim>\<open>POST /api/fallback/:sessionId/:step\<close>. \<^verbatim>\<open>path.basename(undefined)\<close> throws before the
  session is touched; the handler's \<^verbatim>\<open>catch\<close> answers 500.
\<close>

definition fallback :: "string \<Rightarrow> session \<Rightarrow> outcome" where
  "fallback step s =
     (if step = ''cv_analysis'' then
        ((assign_result ''cvAnalysis''
            (Some (generateFallbackCVAnalysis (basename (cvPath s)) (jobDescription s))) s)
           \<lparr>status := ''cv_analyzed_fallback''\<rparr>,
         Done (Some ''media_transcription'') True, no_trace)
      else if step = ''transcription'' then
        (case mediaPath s of
           None \<Rightarrow> (s, Fail 500 ''Failed to generate fallback response'' [], no_trace)
         | Some p \<Rightarrow>
             ((assign_result ''transcription''
                 (Some (generateFallbackTranscription (basename p) (mediaType s) (jobDescription s))) s)
                \<lparr>status := media_name (mediaType s) @ ''_transcribed_fallback''\<rparr>,
              Done (Some (if mediaType s = Video then ''face_analysis'' else ''technical_analysis'')) True,
              no_trace))
      else if step = ''face_analysis'' then
        (if mediaType s \<noteq> Video then (s, Fail 400 ''Face analysis not available'' [], no_trace)
         else
           (case videoPath s of
              None \<Rightarrow> (s, Fail 500 ''Failed to generate fallback response'' [], no_trace)
            | Some p \<Rightarrow>
                ((assign_result ''faceAnalysis''
                    (Some (generateFallbackFaceAnalysis (basename p) (jobDescription s))) s)
                   \<lparr>status := ''face_analyzed_fallback''\<rparr>,
                 Done (Some ''technical_analysis'') True, no_trace)))
      else
        (s, Fail 400 ''Fallback not available for this step''
              [''cv_analysis'', ''transcription'', ''face_analysis''], no_trace))"

text \<open>
  \<^verbatim>\<open>POST /api/technical-analysis/:sessionId\<close>. The gateway is called with its default of
  three attempts and no attachment; what it throws reaches the handler's only \<^verbatim>\<open>catch\<close>,
  which answers 500 and assigns nothing.
\<close>

definition technical_analysis :: "env \<Rightarrow> session \<Rightarrow> outcome" where
  "technical_analysis e s =
     (if \<not> truthy (results s ''transcription'') \<or> \<not> truthy (results s ''cvAnalysis'') then
        (s, Fail 400 ''Previous analysis steps not completed'' [], no_trace)
      else
        (let s1 = s\<lparr>status := ''analyzing_technical''\<rparr>;
             pr = TechnicalPrompt (jobDescription s1) (interp (results s1 ''cvAnalysis''))
                    (interp (results s1 ''transcription'')) (faceAnalysisSection s1)
         in case callGeminiAPI (gemini e pr None) None 3 of
              (Thrown m, tr) \<Rightarrow> (s1, Fail 500 ''Failed to perform technical analysis'' [], tr)
            | (r, tr) \<Rightarrow>
                ((assign_result ''technicalAnalysis'' (returned_value r) s1)
                   \<lparr>status := ''technical_analyzed''\<rparr>,
                 Done (Some ''communication_analysis'') False, tr)))"

text \<open>\<^verbatim>\<open>POST /api/communication-analysis/:sessionId\<close>.\<close>

definition communication_analysis :: "env \<Rightarrow> session \<Rightarrow> outcome" where
  "communication_analysis e s =
     (if \<not> truthy (results s ''transcription'') then
        (s, Fail 400 ''Transcription not available'' [], no_trace)
      else
        (let s1 = s\<lparr>status := ''analyzing_communication''\<rparr>;
             pr = CommunicationPrompt (interp (results s1 ''transcription'')) (faceAnalysisSection s1)
         in case callGeminiAPI (gemini e pr None) None 3 of
              (Thrown m, tr) \<Rightarrow> (s1, Fail 500 ''Failed to perform communication analysis'' [], tr)
            | (r, tr) \<Rightarrow>
                ((assign_result ''communicationAnalysis'' (returned_value r) s1)
                   \<lparr>status := ''communication_analyzed''\<rparr>,
                 Done (Some ''final_report'') False, tr)))"

text \<open>\<^verbatim>\<open>POST /api/final-report/:sessionId\<close>.\<close>

definition requiredAnalyses :: "string list" where
  "requiredAnalyses = [''cvAnalysis'', ''transcription'', ''technicalAnalysis'', ''communicationAnalysis'']"

definition final_report :: "env \<Rightarrow> session \<Rightarrow> outcome" where
  "final_report e s =
     (let missingAnalyses = filter (\<lambda>analysis. \<not> truthy (results s analysis)) requiredAnalyses in
      if length missingAnalyses > 0 then (s, Fail 400 ''Incomplete analysis'' missingAnalyses, no_trace)
      else
        (let s1 = s\<lparr>status := ''generating_final_report''\<rparr>;
             pr = FinalReportPrompt (jobDescription s1) (interp (results s1 ''cvAnalysis''))
                    (interp (results s1 ''transcription'')) (interp (results s1 ''technicalAnalysis''))
                    (interp (results s1 ''communicationAnalysis'')) (faceAnalysisSection s1)
         in case callGeminiAPI (gemini e pr None) None 3 of
              (Thrown m, tr) \<Rightarrow> (s1, Fail 500 ''Failed to generate final report'' [], tr)
            | (r, tr) \<Rightarrow>
                ((assign_result ''finalReport'' (returned_value r) s1)
                   \<lparr>status := ''completed'', completedAt := Some (now e)\<rparr>,
                 Done None False, tr)))"

subsection \<open>Retry: \<^verbatim>\<open>POST /api/retry/:sessionId/:step\<close>\<close>

text \<open>
  The handler resets the session and answers with a 307 redirect to the stage's route;
  the client repeats the POST there.
\<close>

definition retry :: "string \<Rightarrow> session \<Rightarrow> outcome" where
  "retry step s =
     (if step = ''cv_analysis'' then
        (s\<lparr>status := ''initialized'', results := (results s)(''cvAnalysis'' := None)\<rparr>,
         Redirect 307 (''/api/analyze-cv/'' @ sessionId s), no_trace)
      else if step = ''transcription'' then
        (s\<lparr>status := ''cv_analyzed'', results := (results s)(''transcription'' := None)\<rparr>,
         Redirect 307 (''/api/transcribe-media/'' @ sessionId s), no_trace)
      else if step = ''face_analysis'' then
        (s\<lparr>status := media_name (mediaType s) @ ''_transcribed'',
           results := (results s)(''faceAnalysis'' := None)\<rparr>,
         Redirect 307 (''/api/face-analysis/'' @ sessionId s), no_trace)
      else if step = ''technical_analysis'' then
        (s\<lparr>status := (if truthy (results s ''faceAnalysis'') then ''face_analyzed''
                       else media_name (mediaType s) @ ''_transcribed''),
           results := (results s)(''technicalAnalysis'' := None)\<rparr>,
         Redirect 307 (''/api/technical-analysis/'' @ sessionId s), no_trace)
      else if step = ''communication_analysis'' then
        (s\<lparr>status := ''technical_analyzed'', results := (results s)(''communicationAnalysis'' := None)\<rparr>,
         Redirect 307 (''/api/communication-analysis/'' @ sessionId s), no_trace)
      else if step = ''final_report'' then
        (s\<lparr>status := ''communication_analyzed'', results := (results s)(''finalReport'' := None)\<rparr>,
         Redirect 307 (''/api/final-report/'' @ sessionId s), no_trace)
      else
        (s, Fail 400 ''Invalid step''
              [''cv_analysis'', ''transcription'', ''face_analysis'', ''technical_analysis'',
               ''communication_analysis'', ''final_report''], no_trace))"

text \<open>The stage routes, for a POST that names this session; any other path is the 404 handler.\<close>

definition post :: "env \<Rightarrow> string \<Rightarrow> session \<Rightarrow> outcome" where
  "post e url s =
     (if url = ''/api/analyze-cv/'' @ sessionId s then analyze_cv e s
      else if url = ''/api/transcribe-media/'' @ sessionId s then transcribe_media e s
      else if url = ''/api/face-analysis/'' @ sessionId s then face_analysis e s
      else if url = ''/api/technical-analysis/'' @ sessionId s then technical_analysis e s
      else if url = ''/api/communication-analysis/'' @ sessionId s then communication_analysis e s
      else if url = ''/api/final-report/'' @ sessionId s then final_report e s
      else (s, Fail 404 ''Endpoint not found'' [], no_trace))"

text \<open>A retry request together with the redirected POST that the client sends next.\<close>

definition retry_stage :: "env \<Rightarrow> string \<Rightarrow> session \<Rightarrow> outcome" where
  "retry_stage e step s =
     (case retry step s of
        (s1, Redirect c url, tr) \<Rightarrow> post e url s1
      | other \<Rightarrow> other)"

subsection \<open>The session store and request sequences\<close>

text \<open>
  \<^verbatim>\<open>analysisSessions.get(sessionId)\<close> in front of every handler; the handler mutates the
  stored object.
\<close>

definition with_session ::
  "(session \<Rightarrow> outcome) \<Rightarrow> string \<Rightarrow> (string \<rightharpoonup> session) \<Rightarrow> (string \<rightharpoonup> session) \<times> reply \<times> gw_trace" where
  "with_session h sid store =
     (case store sid of
        None \<Rightarrow> (store, Fail 404 ''Session not found'' [], no_trace)
      | Some s \<Rightarrow> (case h s of (s1, r, tr) \<Rightarrow> (store(sid \<mapsto> s1), r, tr)))"

text \<open>The requests a client can send for a session, each with what the handler will read.\<close>

datatype request =
  AnalyzeCv env
| TranscribeMedia env
| FaceAnalysis env
| Fallback string
| TechnicalAnalysis env
| CommunicationAnalysis env
| FinalReport env
| Retry string

fun handle :: "request \<Rightarrow> session \<Rightarrow> outcome" where
  "handle (AnalyzeCv e) s = analyze_cv e s"
| "handle (TranscribeMedia e) s = transcribe_media e s"
| "handle (FaceAnalysis e) s = face_analysis e s"
| "handle (Fallback step) s = fallback step s"
| "handle (TechnicalAnalysis e) s = technical_analysis e s"
| "handle (CommunicationAnalysis e) s = communication_analysis e s"
| "handle (FinalReport e) s = final_report e s"
| "handle (Retry step) s = retry step s"

fun run :: "request list \<Rightarrow> session \<Rightarrow> session" where
  "run [] s = s"
| "run (r # rs) s = run rs (fst (handle r s))"

fun is_retry :: "request \<Rightarrow> bool" where
  "is_retry (Retry step) = True"
| "is_retry other = False"

subsection \<open>Vocabulary of the specification\<close>

text \<open>The classes of failure that the specification names.\<close>

datatype error_class = Overloaded | RateLimited | BadRequest | OtherFailure

text \<open>
  The specification's backoff table: the overload schedule (short, long, very long),
  the rate-limit base delay of 30 s times the attempt number, and a linearly growing
  delay of 5 s per attempt for other failures. A bad request is never waited on.
\<close>

fun backoff :: "error_class \<Rightarrow> nat \<Rightarrow> nat" where
  "backoff Overloaded attempt =
     (if attempt = 1 then 30000 else if attempt = 2 then 120000 else 300000)"
| "backoff RateLimited attempt = 30000 * attempt"
| "backoff OtherFailure attempt = 5000 * attempt"
| "backoff BadRequest attempt = 0"

text \<open>The specification's terminal error of each class, with the message the source appends.\<close>

fun terminal_error :: "error_class \<Rightarrow> string \<Rightarrow> string" where
  "terminal_error Overloaded m = ''OVERLOADED''"
| "terminal_error RateLimited m = ''RATE_LIMITED''"
| "terminal_error BadRequest m = ''INVALID_REQUEST: '' @ m"
| "terminal_error OtherFailure m = ''FAILED_AFTER_RETRIES: '' @ m"

text \<open>
  The class that the \<^verbatim>\<open>catch\<close> block of \<^verbatim>\<open>callGeminiAPI\<close> gives a failure, read off its
  chain of tests: the text test for \<^verbatim>\<open>overloaded\<close> comes before the tests of the codes 429
  and 400.
\<close>

definition classify :: "int option \<Rightarrow> string \<Rightarrow> error_class" where
  "classify errorCode errorMessage =
     (if errorCode = Some 503 \<or> str_includes errorMessage ''overloaded'' then Overloaded
      else if errorCode = Some 429 then RateLimited
      else if errorCode = Some 400 then BadRequest
      else OtherFailure)"

text \<open>The class, the provider's code and the message of the failure of an attempt.\<close>

fun response_class :: "provider_response \<Rightarrow> error_class option" where
  "response_class (Candidates t) = None"
| "response_class NoCandidates = Some OtherFailure"
| "response_class (Rejected c m) = Some (classify c m)"

fun response_code :: "provider_response \<Rightarrow> int option" where
  "response_code (Candidates t) = None"
| "response_code NoCandidates = None"
| "response_code (Rejected c m) = c"

fun response_message :: "provider_response \<Rightarrow> string" where
  "response_message (Candidates t) = []"
| "response_message NoCandidates = ''Invalid response format from Gemini API''"
| "response_message (Rejected c m) = m"

text \<open>
  The six stages of the specification's state machine under the step names of the retry
  route, each with its key in \<^verbatim>\<open>results\<close>, its completed values of \<^verbatim>\<open>stageStatus\<close>
  (AI-produced and fallback), the completed state of its predecessor, and its route.
\<close>

definition stage_names :: "string list" where
  "stage_names = [''cv_analysis'', ''transcription'', ''face_analysis'', ''technical_analysis'',
                  ''communication_analysis'', ''final_report'']"

definition stage_key :: "string \<Rightarrow> string" where
  "stage_key step =
     (if step = ''cv_analysis'' then ''cvAnalysis''
      else if step = ''transcription'' then ''transcription''
      else if step = ''face_analysis'' then ''faceAnalysis''
      else if step = ''technical_analysis'' then ''technicalAnalysis''
      else if step = ''communication_analysis'' then ''communicationAnalysis''
      else ''finalReport'')"

definition completed_values :: "media \<Rightarrow> string \<Rightarrow> string list" where
  "completed_values mt step =
     (if step = ''cv_analysis'' then [''cv_analyzed'', ''cv_analyzed_fallback'']
      else if step = ''transcription'' then
        [media_name mt @ ''_transcribed'', media_name mt @ ''_transcribed_fallback'']
      else if step = ''face_analysis'' then [''face_analyzed'', ''face_analyzed_fallback'']
      else if step = ''technical_analysis'' then [''technical_analyzed'']
      else if step = ''communication_analysis'' then [''communication_analyzed'']
      else [''completed''])"

definition predecessor_completed :: "session \<Rightarrow> string \<Rightarrow> string" where
  "predecessor_completed s step =
     (if step = ''cv_analysis'' then ''initialized''
      else if step = ''transcription'' then ''cv_analyzed''
      else if step = ''face_analysis'' then media_name (mediaType s) @ ''_transcribed''
      else if step = ''technical_analysis'' then
        (if truthy (results s ''faceAnalysis'') then ''face_analyzed''
         else media_name (mediaType s) @ ''_transcribed'')
      else if step = ''communication_analysis'' then ''technical_analyzed''
      else ''communication_analyzed'')"

definition stage_route :: "string \<Rightarrow> string" where
  "stage_route step =
     (if step = ''cv_analysis'' then ''/api/analyze-cv/''
      else if step = ''transcription'' then ''/api/transcribe-media/''
      else if step = ''face_analysis'' then ''/api/face-analysis/''
      else if step = ''technical_analysis'' then ''/api/technical-analysis/''
      else if step = ''communication_analysis'' then ''/api/communication-analysis/''
      else ''/api/final-report/'')"

text \<open>
  What a run of a stage stores under the stage's key, in the specification's words. The
  stage is admitted when its prerequisites are in \<^verbatim>\<open>results\<close>, the media kind fits and the
  file is within the processing cap (20 MB audio, 8 MB video). An admitted stage calls
  the gateway with its prompt, its attachment and its attempt budget; the text the
  gateway returns is stored; on an overload the stages with a fallback store the fallback
  content; any other failure, and a stage that is not admitted, leave the entry as it
  was. (A gateway call that returns \<^verbatim>\<open>undefined\<close> makes the source assign \<^verbatim>\<open>undefined\<close>. An
  admitted stage has its file path, so \<open>interp\<close> of the path is the path.)
\<close>

definition stage_admits :: "env \<Rightarrow> string \<Rightarrow> session \<Rightarrow> bool" where
  "stage_admits e step s =
     (if step = ''cv_analysis'' then True
      else if step = ''transcription'' then
        (case mediaPath s of
           None \<Rightarrow> False
         | Some p \<Rightarrow>
             p \<noteq> [] \<and>
             (case stat e p of
                None \<Rightarrow> False
              | Some sz \<Rightarrow> sz \<le> (if mediaType s = Audio then 20 else 8) * MB))
      else if step = ''face_analysis'' then
        mediaType s = Video \<and>
        (case videoPath s of
           None \<Rightarrow> False
         | Some p \<Rightarrow> p \<noteq> [] \<and> (case stat e p of None \<Rightarrow> False | Some sz \<Rightarrow> sz \<le> 8 * MB))
      else if step = ''technical_analysis'' then
        truthy (results s ''transcription'') \<and> truthy (results s ''cvAnalysis'')
      else if step = ''communication_analysis'' then truthy (results s ''transcription'')
      else
        truthy (results s ''cvAnalysis'') \<and> truthy (results s ''transcription'') \<and>
        truthy (results s ''technicalAnalysis'') \<and> truthy (results s ''communicationAnalysis''))"

definition stage_call :: "env \<Rightarrow> string \<Rightarrow> session \<Rightarrow> gw_result \<times> gw_trace" where
  "stage_call e step s =
     (if step = ''cv_analysis'' then call_with_file e CvPrompt (cvPath s) 2
      else if step = ''transcription'' then
        call_with_file e (TranscriptionPrompt (mediaType s)) (interp (mediaPath s)) 3
      else if step = ''face_analysis'' then call_with_file e FacePrompt (interp (videoPath s)) 3
      else if step = ''technical_analysis'' then
        callGeminiAPI
          (gemini e (TechnicalPrompt (jobDescription s) (interp (results s ''cvAnalysis''))
                       (interp (results s ''transcription'')) (faceAnalysisSection s)) None)
          None 3
      else if step = ''communication_analysis'' then
        callGeminiAPI
          (gemini e (CommunicationPrompt (interp (results s ''transcription''))
                       (faceAnalysisSection s)) None)
          None 3
      else
        callGeminiAPI
          (gemini e (FinalReportPrompt (jobDescription s) (interp (results s ''cvAnalysis''))
                       (interp (results s ''transcription'')) (interp (results s ''technicalAnalysis''))
                       (interp (results s ''communicationAnalysis'')) (faceAnalysisSection s)) None)
          None 3)"

definition stage_fallback :: "string \<Rightarrow> session \<Rightarrow> string option" where
  "stage_fallback step s =
     (if step = ''cv_analysis'' then
        Some (generateFallbackCVAnalysis (basename (cvPath s)) (jobDescription s))
      else if step = ''transcription'' then
        Some (generateFallbackTranscription (basename (interp (mediaPath s))) (mediaType s)
                (jobDescription s))
      else if step = ''face_analysis'' then
        Some (generateFallbackFaceAnalysis (basename (interp (videoPath s))) (jobDescription s))
      else None)"

definition stage_result :: "env \<Rightarrow> string \<Rightarrow> session \<Rightarrow> string option" where
  "stage_result e step s =
     (if \<not> stage_admits e step s then results s (stage_key step)
      else
        (case fst (stage_call e step s) of
           Returned t \<Rightarrow> Some t
         | ReturnedUndefined \<Rightarrow> None
         | Thrown m \<Rightarrow>
             (case stage_fallback step s of
                Some f \<Rightarrow> if overload_message m then Some f else results s (stage_key step)
              | None \<Rightarrow> results s (stage_key step))))"

definition primary_operation :: "env \<Rightarrow> string \<Rightarrow> session \<Rightarrow> outcome" where
  "primary_operation e step s =
     (if step = ''cv_analysis'' then analyze_cv e s
      else if step = ''transcription'' then transcribe_media e s
      else if step = ''face_analysis'' then face_analysis e s
      else if step = ''technical_analysis'' then technical_analysis e s
      else if step = ''communication_analysis'' then communication_analysis e s
      else final_report e s)"

subsection \<open>Predicates used in the statements and proofs\<close>

text \<open>
  The values of \<^verbatim>\<open>status\<close> that a handler sets while it runs or when it fails; none of
  them is the completed value of a stage.
\<close>

definition transient_statuses :: "string list" where
  "transient_statuses =
     [''error'', ''analyzing_cv'', ''transcribing_media'', ''analyzing_face'',
      ''analyzing_technical'', ''analyzing_communication'', ''generating_final_report'']"

text \<open>The fields of a session that no handler assigns.\<close>

definition unchanged_inputs :: "session \<Rightarrow> session \<Rightarrow> bool" where
  "unchanged_inputs s s' \<longleftrightarrow>
     sessionId s' = sessionId s \<and> audioPath s' = audioPath s \<and> videoPath s' = videoPath s \<and>
     cvPath s' = cvPath s \<and> jobDescription s' = jobDescription s \<and> mediaType s' = mediaType s \<and>
     createdAt s' = createdAt s"

text \<open>
  What the handler of the stage with key \<open>K\<close> and completed values \<open>C\<close> may do to a
  session: it leaves every other key of \<^verbatim>\<open>results\<close> alone, and either keeps the stage's
  entry (with the status unchanged or transient) or assigns the entry, with a value of
  which \<open>Q\<close> holds, and sets one of the completed values.
\<close>

definition stage_effect ::
  "(string option \<Rightarrow> bool) \<Rightarrow> string \<Rightarrow> string list \<Rightarrow> session \<Rightarrow> session \<Rightarrow> bool" where
  "stage_effect Q K C s s' \<longleftrightarrow>
     unchanged_inputs s s' \<and> (\<forall>k. k \<noteq> K \<longrightarrow> results s' k = results s k) \<and>
     (results s' K = results s K \<and> (status s' = status s \<or> status s' \<in> set transient_statuses)
      \<or> Q (results s' K) \<and> status s' \<in> set C)"

text \<open>The gateway handed its caller a text that is not empty, or threw.\<close>

fun has_text :: "gw_result \<Rightarrow> bool" where
  "has_text (Returned t) = (t \<noteq> [])"
| "has_text ReturnedUndefined = False"
| "has_text (Thrown m) = True"

text \<open>
  Every response of the provider that has content carries a text that is not empty; and
  the same for the environment of a request.
\<close>

definition answers_with_text :: "env \<Rightarrow> bool" where
  "answers_with_text e \<longleftrightarrow> (\<forall>pr fd k t. gemini e pr fd k = Candidates t \<longrightarrow> truthy t)"

fun request_answers_with_text :: "request \<Rightarrow> bool" where
  "request_answers_with_text (AnalyzeCv e) = answers_with_text e"
| "request_answers_with_text (TranscribeMedia e) = answers_with_text e"
| "request_answers_with_text (FaceAnalysis e) = answers_with_text e"
| "request_answers_with_text (Fallback step) = True"
| "request_answers_with_text (TechnicalAnalysis e) = answers_with_text e"
| "request_answers_with_text (CommunicationAnalysis e) = answers_with_text e"
| "request_answers_with_text (FinalReport e) = answers_with_text e"
| "request_answers_with_text (Retry step) = True"

text \<open>The stage a request is about.\<close>

fun request_stage :: "request \<Rightarrow> string" where
  "request_stage (AnalyzeCv e) = ''cv_analysis''"
| "request_stage (TranscribeMedia e) = ''transcription''"
| "request_stage (FaceAnalysis e) = ''face_analysis''"
| "request_stage (Fallback step) = step"
| "request_stage (TechnicalAnalysis e) = ''technical_analysis''"
| "request_stage (CommunicationAnalysis e) = ''communication_analysis''"
| "request_stage (FinalReport e) = ''final_report''"
| "request_stage (Retry step) = step"


text \<open>The attachment passes the gateway's size check (or there is none).\<close>

definition fits :: "fileData option \<Rightarrow> bool" where
  "fits fd = (case fd of None \<Rightarrow> True | Some f \<Rightarrow> byteLength f \<le> 20 * (1024 * 1024))"

subsection \<open>Sample inputs\<close>

text \<open>
  A provider that answers the first attempt with an overload, the second with a rate
  limit and the third with a time-out, and the classes of these failures.
\<close>

definition mixed_provider :: provider where
  "mixed_provider k =
     (if k = 1 then Rejected (Some 503) ''The model is overloaded. Please try again later.''
      else if k = 2 then Rejected (Some 429) ''Resource has been exhausted''
      else Rejected None ''timeout of 120000ms exceeded'')"

definition mixed_classes :: "nat \<Rightarrow> error_class" where
  "mixed_classes k = (if k = 1 then Overloaded else if k = 2 then RateLimited else OtherFailure)"

text \<open>A provider that rejects every attempt with code 429 and an overload message.\<close>

definition overloaded_429_provider :: provider where
  "overloaded_429_provider k = Rejected (Some 429) ''The model is overloaded''"

text \<open>A provider that rejects every attempt with code 400 and an overload message.\<close>

definition overloaded_400_provider :: provider where
  "overloaded_400_provider k = Rejected (Some 400) ''The model is overloaded''"


definition scenario_session :: session where
  "scenario_session =
     \<lparr>sessionId = ''s1'', audioPath = None, videoPath = Some ''uploads/video-1.mp4'',
      cvPath = ''uploads/cv-1.pdf'', jobDescription = ''Senior Backend Engineer'',
      mediaType = Video, status = ''initialized'', createdAt = 0, completedAt = None,
      results = Map.empty\<rparr>"

definition analysed_session :: session where
  "analysed_session =
     \<lparr>sessionId = ''s1'', audioPath = None, videoPath = Some ''uploads/video-1.mp4'',
      cvPath = ''uploads/cv-1.pdf'', jobDescription = ''Senior Backend Engineer'',
      mediaType = Video, status = ''video_transcribed'', createdAt = 0, completedAt = None,
      results = [''cvAnalysis'' \<mapsto> ''CV text'', ''transcription'' \<mapsto> ''Transcript text'']\<rparr>"

text \<open>An audio upload and its session.\<close>

definition audio_request :: init_request where
  "audio_request =
     \<lparr>body_jobDescription = Some ''Senior Backend Engineer'',
      audio_file = Some \<lparr>filePath = ''uploads/audio-3.mp3'', fileSize = 3 * MB, originalname = ''interview.mp3''\<rparr>,
      video_file = None,
      cv_file = Some \<lparr>filePath = ''uploads/cv-3.pdf'', fileSize = 1 * MB, originalname = ''cv.pdf''\<rparr>\<rparr>"

definition audio_session :: session where
  "audio_session =
     \<lparr>sessionId = ''s3'', audioPath = Some ''uploads/audio-3.mp3'', videoPath = None,
      cvPath = ''uploads/cv-3.pdf'', jobDescription = ''Senior Backend Engineer'',
      mediaType = Audio, status = ''initialized'', createdAt = 0, completedAt = None,
      results = Map.empty\<rparr>"

text \<open>An upload with an 11 MB video.\<close>

definition oversized_request :: init_request where
  "oversized_request =
     \<lparr>body_jobDescription = Some ''Senior Backend Engineer'',
      audio_file = None,
      video_file = Some \<lparr>filePath = ''uploads/video-2.mp4'', fileSize = 11 * MB, originalname = ''long.mp4''\<rparr>,
      cv_file = Some \<lparr>filePath = ''uploads/cv-2.pdf'', fileSize = 1 * MB, originalname = ''cv.pdf''\<rparr>\<rparr>"

text \<open>
  Environments: files of 5 MB and a provider that answers at once; files of 11 MB; and a
  provider that answers every attempt with a rate limit.
\<close>

definition healthy_env :: env where
  "healthy_env =
     \<lparr>stat = (\<lambda>p. Some (5 * MB)), readFile = (\<lambda>p. Some (5 * MB)),
      gemini = (\<lambda>pr fd k. Candidates (Some ''analysis'')), now = 1\<rparr>"

definition grown_file_env :: env where
  "grown_file_env =
     \<lparr>stat = (\<lambda>p. Some (11 * MB)), readFile = (\<lambda>p. Some (11 * MB)),
      gemini = (\<lambda>pr fd k. Candidates (Some ''analysis'')), now = 1\<rparr>"


definition rate_limited_env :: env where
  "rate_limited_env =
     \<lparr>stat = (\<lambda>p. Some (5 * MB)), readFile = (\<lambda>p. Some (5 * MB)),
      gemini = (\<lambda>pr fd k. Rejected (Some 429) ''Resource has been exhausted''), now = 1\<rparr>"

section \<open>Verification\<close>

subsection \<open>The gateway's retry loop\<close>


lemma overload_wait_backoff: "1 \<le> k \<Longrightarrow> overload_wait k = backoff Overloaded k"
proof -
  assume k: "1 \<le> k"
  consider "k = 1" | "k = 2" | "k = 3" | "4 \<le> k" using k by linarith
  then show ?thesis
  proof cases
    case 1 then show ?thesis by (simp add: overload_wait_def waitTimes_def)
  next
    case 2 then show ?thesis by (simp add: overload_wait_def waitTimes_def)
  next
    case 3 then show ?thesis by (simp add: overload_wait_def waitTimes_def)
  next
    case 4 then show ?thesis by (simp add: overload_wait_def waitTimes_def)
  qed
qed

lemma try_attempt_fits:
  "fits fd \<Longrightarrow> try_attempt P fd k tr =
     (case P k of Candidates t \<Rightarrow> Got t
               | NoCandidates \<Rightarrow> Caught None ''Invalid response format from Gemini API''
               | Rejected c m \<Rightarrow> Caught c m, tr\<lparr>calls := calls tr + 1\<rparr>)"
  by (auto simp: try_attempt_def fits_def split: option.splits provider_response.splits)

lemma no_overloaded_in_invalid: "\<not> str_includes ''Invalid response format from Gemini API'' ''overloaded''"
  by simp

lemma on_error_continue:
  assumes "1 \<le> k" "k < n" "cls \<noteq> BadRequest" "classify c m = cls"
  shows "on_error n k c m = Continue (backoff cls k)"
  using assms by (auto simp: on_error_def classify_def overload_wait_backoff split: if_splits)

lemma on_error_last:
  assumes "classify c m = cls"  "cls \<noteq> BadRequest"
  shows "on_error n n c m = Throw (terminal_error cls m)"
  using assms by (auto simp: on_error_def classify_def split: if_splits)

lemma on_error_bad_request:
  assumes "classify c m = BadRequest"
  shows "on_error n k c m = Throw (''INVALID_REQUEST: '' @ m)"
  using assms by (auto simp: on_error_def classify_def split: if_splits)


lemma trace_eq: "(t1 :: gw_trace) = t2 \<longleftrightarrow> calls t1 = calls t2 \<and> waits t1 = waits t2"
  by (cases t1, cases t2) auto

lemma trace_update:
  "tr\<lparr>calls := x\<rparr> = \<lparr>calls = x, waits = waits tr\<rparr>"
  "tr\<lparr>waits := y\<rparr> = \<lparr>calls = calls tr, waits = y\<rparr>"
  "\<lparr>calls = calls tr, waits = waits tr\<rparr> = tr"
  by (cases tr; simp)+

lemma class_cases:
  assumes "response_class r = Some c"
  obtains "r = NoCandidates" "c = OtherFailure" | code m where "r = Rejected code m" "classify code m = c"
  using assms by (cases r) auto

lemma classify_invalid_response:
  "classify None ''Invalid response format from Gemini API'' = OtherFailure"
  by (simp add: classify_def)

lemma loop_step_failure:
  assumes "fits fd" "1 \<le> a" "a < n" "response_class (P a) = Some c" "c \<noteq> BadRequest"
  shows "callGeminiAPI_loop P fd n a tr =
           callGeminiAPI_loop P fd n (Suc a) \<lparr>calls = calls tr + 1, waits = waits tr @ [backoff c a]\<rparr>"
proof -
  from assms(4) show ?thesis
  proof (cases rule: class_cases)
    case 1
    have "on_error n a None ''Invalid response format from Gemini API'' = Continue (backoff c a)"
      using assms 1 classify_invalid_response by (intro on_error_continue) auto
    then show ?thesis
      using assms 1 by (subst callGeminiAPI_loop.simps) (simp add: try_attempt_fits trace_update)
  next
    case (2 code m)
    have "on_error n a code m = Continue (backoff c a)"
      using assms 2 by (intro on_error_continue) auto
    then show ?thesis
      using assms 2 by (subst callGeminiAPI_loop.simps) (simp add: try_attempt_fits trace_update)
  qed
qed

lemma loop_last_failure:
  assumes "fits fd" "response_class (P n) = Some c" "c \<noteq> BadRequest"
  shows "callGeminiAPI_loop P fd n n tr =
           (Thrown (terminal_error c (response_message (P n))), \<lparr>calls = calls tr + 1, waits = waits tr\<rparr>)"
proof -
  from assms(2) show ?thesis
  proof (cases rule: class_cases)
    case 1
    have "on_error n n None ''Invalid response format from Gemini API'' =
            Throw (terminal_error c ''Invalid response format from Gemini API'')"
      using assms 1 classify_invalid_response by (intro on_error_last) auto
    then show ?thesis
      using assms 1 by (subst callGeminiAPI_loop.simps) (simp add: try_attempt_fits trace_eq)
  next
    case (2 code m)
    have "on_error n n code m = Throw (terminal_error c m)"
      using assms 2 by (intro on_error_last) auto
    then show ?thesis
      using assms 2 by (subst callGeminiAPI_loop.simps) (simp add: try_attempt_fits trace_eq)
  qed
qed

lemma loop_bad_request:
  assumes "fits fd" "a \<le> n" "P a = Rejected code m" "classify code m = BadRequest"
  shows "callGeminiAPI_loop P fd n a tr =
           (Thrown (''INVALID_REQUEST: '' @ m), \<lparr>calls = calls tr + 1, waits = waits tr\<rparr>)"
  using assms on_error_bad_request [of code m n a]
  by (subst callGeminiAPI_loop.simps) (simp add: try_attempt_fits trace_eq)

lemma loop_success:
  assumes "fits fd" "a \<le> n" "P a = Candidates t"
  shows "callGeminiAPI_loop P fd n a tr = (returned t, \<lparr>calls = calls tr + 1, waits = waits tr\<rparr>)"
  using assms by (subst callGeminiAPI_loop.simps) (simp add: try_attempt_fits trace_eq)

lemma loop_skip_failures:
  assumes "fits fd" "1 \<le> a" "a \<le> k" "k \<le> n"
    and "\<forall>j. a \<le> j \<and> j < k \<longrightarrow> response_class (P j) = Some (cls j) \<and> cls j \<noteq> BadRequest"
  shows "callGeminiAPI_loop P fd n a tr =
           callGeminiAPI_loop P fd n k
             \<lparr>calls = calls tr + (k - a), waits = waits tr @ map (\<lambda>j. backoff (cls j) j) [a..<k]\<rparr>"
  using assms
proof (induction "k - a" arbitrary: a tr)
  case 0
  then have "a = k" by simp
  then show ?case by (simp add: trace_update)
next
  case (Suc d)
  then have lt: "a < k" and an: "a < n" by auto
  have cls: "response_class (P a) = Some (cls a)" "cls a \<noteq> BadRequest"
    using Suc.prems lt by auto
  let ?tr1 = "\<lparr>calls = calls tr + 1, waits = waits tr @ [backoff (cls a) a]\<rparr>"
  have step: "callGeminiAPI_loop P fd n a tr = callGeminiAPI_loop P fd n (Suc a) ?tr1"
    using Suc.prems(1,2) an cls by (rule loop_step_failure)
  have "callGeminiAPI_loop P fd n (Suc a) ?tr1 =
          callGeminiAPI_loop P fd n k
            \<lparr>calls = calls ?tr1 + (k - Suc a),
               waits = waits ?tr1 @ map (\<lambda>j. backoff (cls j) j) [Suc a..<k]\<rparr>"
    using Suc.hyps(2) Suc.prems lt by (intro Suc.hyps(1)) auto
  also have "calls ?tr1 + (k - Suc a) = calls tr + (k - a)" using lt by simp
  also have "waits ?tr1 @ map (\<lambda>j. backoff (cls j) j) [Suc a..<k] =
               waits tr @ map (\<lambda>j. backoff (cls j) j) [a..<k]"
    using lt by (simp add: upt_conv_Cons)
  finally show ?case using step by simp
qed


lemma gateway_failures:
  assumes "fits fd" "1 \<le> k" "k \<le> retries"
    and "\<forall>j. 1 \<le> j \<and> j < k \<longrightarrow> response_class (P j) = Some (cls j) \<and> cls j \<noteq> BadRequest"
  shows "callGeminiAPI P fd retries =
           callGeminiAPI_loop P fd retries k
             \<lparr>calls = k - 1, waits = map (\<lambda>j. backoff (cls j) j) [1..<k]\<rparr>"
  using loop_skip_failures [OF assms(1) _ assms(2,3), of P cls no_trace] assms(4)
  by (simp add: callGeminiAPI_def no_trace_def)

lemma gateway_all_fail:
  assumes "1 \<le> retries" "fits fd"
    and "\<forall>k. 1 \<le> k \<and> k \<le> retries \<longrightarrow> response_class (P k) = Some (cls k) \<and> cls k \<noteq> BadRequest"
  shows "callGeminiAPI P fd retries =
           (Thrown (terminal_error (cls retries) (response_message (P retries))),
            \<lparr>calls = retries, waits = map (\<lambda>k. backoff (cls k) k) [1..<retries]\<rparr>)"
proof -
  have "callGeminiAPI P fd retries =
          callGeminiAPI_loop P fd retries retries
            \<lparr>calls = retries - 1, waits = map (\<lambda>j. backoff (cls j) j) [1..<retries]\<rparr>"
    using assms by (intro gateway_failures) auto
  moreover have "response_class (P retries) = Some (cls retries)" "cls retries \<noteq> BadRequest"
    using assms by auto
  ultimately show ?thesis
    using assms(1,2) by (simp add: loop_last_failure)
qed

lemma class_of_failure:
  assumes "\<forall>t. r \<noteq> Candidates t"
    and "c = Overloaded \<and> (response_code r = Some 503 \<or> str_includes (response_message r) ''overloaded'')
       \<or> c = RateLimited \<and> response_code r = Some 429 \<and> \<not> str_includes (response_message r) ''overloaded''
       \<or> c = OtherFailure \<and> response_code r \<noteq> Some 503 \<and> response_code r \<noteq> Some 429
           \<and> response_code r \<noteq> Some 400 \<and> \<not> str_includes (response_message r) ''overloaded''"
  shows "response_class r = Some c \<and> c \<noteq> BadRequest"
proof (cases r)
  case (Candidates t)
  then show ?thesis using assms(1) by simp
next
  case NoCandidates
  then show ?thesis using assms(2) by (auto simp: no_overloaded_in_invalid)
next
  case (Rejected code m)
  then show ?thesis using assms(2) by (auto simp: classify_def)
qed

text \<open>
  Claim C5, amended. In the retry loop each failed attempt selects the wait before the
  next attempt and, at the last attempt, the terminal error. A failure with code 503, or
  with any code and a message that contains \<^verbatim>\<open>overloaded\<close>, waits 30 s, 120 s, then 300 s by
  attempt number and ends in \<^verbatim>\<open>OVERLOADED\<close>. A failure with code 429 and a message without
  \<^verbatim>\<open>overloaded\<close> waits 30 s times the attempt number and ends in \<^verbatim>\<open>RATE_LIMITED\<close>. A failure
  with none of the codes 503, 429, 400 and a message without \<^verbatim>\<open>overloaded\<close> waits 5 s times
  the attempt number and ends in \<^verbatim>\<open>FAILED_AFTER_RETRIES\<close>. When all \<open>retries\<close> attempts fail
  in one of these ways, the gateway makes \<open>retries\<close> network calls, waits after each attempt
  but the last, and throws the terminal error of the last attempt.
\<close>

theorem gateway_backoff_by_class:
  assumes "1 \<le> retries" "fits fd"
    and "\<forall>k. 1 \<le> k \<and> k \<le> retries \<longrightarrow>
           (\<forall>t. P k \<noteq> Candidates t) \<and>
           (cls k = Overloaded \<and>
              (response_code (P k) = Some 503 \<or> str_includes (response_message (P k)) ''overloaded'')
            \<or> cls k = RateLimited \<and> response_code (P k) = Some 429 \<and>
              \<not> str_includes (response_message (P k)) ''overloaded''
            \<or> cls k = OtherFailure \<and> response_code (P k) \<noteq> Some 503 \<and>
              response_code (P k) \<noteq> Some 429 \<and> response_code (P k) \<noteq> Some 400 \<and>
              \<not> str_includes (response_message (P k)) ''overloaded'')"
  shows "callGeminiAPI P fd retries =
           (Thrown (terminal_error (cls retries) (response_message (P retries))),
            \<lparr>calls = retries, waits = map (\<lambda>k. backoff (cls k) k) [1..<retries]\<rparr>)"
proof -
  have "\<forall>k. 1 \<le> k \<and> k \<le> retries \<longrightarrow> response_class (P k) = Some (cls k) \<and> cls k \<noteq> BadRequest"
  proof (intro allI impI)
    fix k assume k: "1 \<le> k \<and> k \<le> retries"
    show "response_class (P k) = Some (cls k) \<and> cls k \<noteq> BadRequest"
      using assms(3) [rule_format, OF k] by (intro class_of_failure) blast+
  qed
  with assms(1,2) show ?thesis by (rule gateway_all_fail)
qed

text \<open>
  An instance of the amended C5: an overload, a rate limit and a time-out in three
  attempts.
\<close>

theorem gateway_backoff_by_class_witness:
  "callGeminiAPI mixed_provider None 3 =
     (Thrown ''FAILED_AFTER_RETRIES: timeout of 120000ms exceeded'',
      \<lparr>calls = 3, waits = [30000, 60000]\<rparr>)"
proof -
  have f: "fits None" by (simp add: fits_def)
  have c: "\<forall>k. 1 \<le> k \<and> k \<le> 3 \<longrightarrow>
           (\<forall>t. mixed_provider k \<noteq> Candidates t) \<and>
           (mixed_classes k = Overloaded \<and>
              (response_code (mixed_provider k) = Some 503 \<or>
               str_includes (response_message (mixed_provider k)) ''overloaded'')
            \<or> mixed_classes k = RateLimited \<and> response_code (mixed_provider k) = Some 429 \<and>
              \<not> str_includes (response_message (mixed_provider k)) ''overloaded''
            \<or> mixed_classes k = OtherFailure \<and> response_code (mixed_provider k) \<noteq> Some 503 \<and>
              response_code (mixed_provider k) \<noteq> Some 429 \<and>
              response_code (mixed_provider k) \<noteq> Some 400 \<and>
              \<not> str_includes (response_message (mixed_provider k)) ''overloaded'')"
    by (simp add: mixed_provider_def mixed_classes_def)
  have u: "[Suc 0..<3] = [Suc 0, 2]" by (simp add: upt_rec)
  show ?thesis
    using gateway_backoff_by_class [of 3 None mixed_provider mixed_classes, OF _ f c]
    by (simp add: u mixed_provider_def mixed_classes_def)
qed

text \<open>
  Claim C5 as stated fails for a rate-limit error whose message contains \<^verbatim>\<open>overloaded\<close>:
  the text test comes before the test of code 429, so every attempt answered with 429
  and ``The model is overloaded'' follows the overload schedule (30 s, 120 s) and the
  call ends in \<^verbatim>\<open>OVERLOADED\<close>, not in \<^verbatim>\<open>RATE_LIMITED\<close> after waits of 30 s and 60 s.
\<close>

theorem rate_limit_overloaded_text_counterexample:
  "overloaded_429_provider 1 = Rejected (Some 429) ''The model is overloaded''
   \<and> callGeminiAPI overloaded_429_provider None 3 =
       (Thrown ''OVERLOADED'', \<lparr>calls = 3, waits = [30000, 120000]\<rparr>)
   \<and> fst (callGeminiAPI overloaded_429_provider None 3) \<noteq> Thrown ''RATE_LIMITED''
   \<and> waits (snd (callGeminiAPI overloaded_429_provider None 3)) \<noteq> [30000 * 1, 30000 * 2]"
proof -
  have f: "fits None" by (simp add: fits_def)
  have l: "response_class (overloaded_429_provider k) = Some Overloaded" for k
    by (simp add: overloaded_429_provider_def classify_def)
  have c: "\<forall>k. 1 \<le> k \<and> k \<le> 3 \<longrightarrow>
             response_class (overloaded_429_provider k) = Some Overloaded \<and> Overloaded \<noteq> BadRequest"
    by (simp add: l)
  have u: "[Suc 0..<3] = [Suc 0, 2]" by (simp add: upt_rec)
  have r: "callGeminiAPI overloaded_429_provider None 3 =
             (Thrown ''OVERLOADED'', \<lparr>calls = 3, waits = [30000, 120000]\<rparr>)"
    using gateway_all_fail [of 3 None overloaded_429_provider "\<lambda>k. Overloaded", OF _ f c]
    by (simp add: u)
  show ?thesis
    by (simp only: r fst_conv snd_conv) (simp add: overloaded_429_provider_def)
qed

text \<open>
  Claim C6, amended. When the provider rejects attempt \<open>k\<close> with error code 400 and a
  message that does not contain \<^verbatim>\<open>overloaded\<close>, the call throws \<^verbatim>\<open>INVALID_REQUEST\<close> at that
  attempt: no wait follows it and no further attempt is made, whatever \<open>retries\<close> is. For
  \<open>k = 1\<close> that is exactly one network call and no wait at all.
\<close>

theorem bad_request_fails_without_retry:
  assumes "fits fd" "1 \<le> k" "k \<le> retries"
    and "\<forall>j. 1 \<le> j \<and> j < k \<longrightarrow> response_class (P j) = Some (cls j) \<and> cls j \<noteq> BadRequest"
    and "P k = Rejected (Some 400) m" "\<not> str_includes m ''overloaded''"
  shows "callGeminiAPI P fd retries =
           (Thrown (''INVALID_REQUEST: '' @ m),
            \<lparr>calls = k, waits = map (\<lambda>j. backoff (cls j) j) [1..<k]\<rparr>)"
proof -
  have "classify (Some 400) m = BadRequest"
    using assms(6) by (simp add: classify_def)
  then show ?thesis
    using assms(1-5) by (simp add: gateway_failures [of fd k retries P cls] loop_bad_request)
qed

text \<open>
  An instance of the amended C6: a 400 on the first of three attempts.
\<close>

theorem bad_request_fails_without_retry_witness:
  "callGeminiAPI (\<lambda>k. Rejected (Some 400) ''Invalid JSON payload received'') None 3 =
     (Thrown ''INVALID_REQUEST: Invalid JSON payload received'', \<lparr>calls = 1, waits = []\<rparr>)"
proof -
  have f: "fits None" by (simp add: fits_def)
  have n: "\<not> str_includes ''Invalid JSON payload received'' ''overloaded''" by simp
  show ?thesis
    using bad_request_fails_without_retry
      [of None 1 3 "\<lambda>k. Rejected (Some 400) ''Invalid JSON payload received''" "\<lambda>k. OtherFailure"
          "''Invalid JSON payload received''", OF f _ _ _ _ n]
    by simp
qed

text \<open>
  Claim C6 as stated fails for a 400 whose message contains \<^verbatim>\<open>overloaded\<close>: the test for
  an overload comes first in the \<^verbatim>\<open>catch\<close> block, so the call waits 30 s and 120 s, makes
  three network calls and throws \<^verbatim>\<open>OVERLOADED\<close>.
\<close>

theorem bad_request_overloaded_text_counterexample:
  "overloaded_400_provider 1 = Rejected (Some 400) ''The model is overloaded''
   \<and> callGeminiAPI overloaded_400_provider None 3 =
       (Thrown ''OVERLOADED'', \<lparr>calls = 3, waits = [30000, 120000]\<rparr>)
   \<and> fst (callGeminiAPI overloaded_400_provider None 3) \<noteq>
       Thrown ''INVALID_REQUEST: The model is overloaded''"
proof -
  have f: "fits None" by (simp add: fits_def)
  have l: "response_class (overloaded_400_provider k) = Some Overloaded" for k
    by (simp add: overloaded_400_provider_def classify_def)
  have c: "\<forall>j. 1 \<le> j \<and> j < 3 \<longrightarrow>
             response_class (overloaded_400_provider j) = Some Overloaded \<and> Overloaded \<noteq> BadRequest"
    by (simp add: l)
  have u: "[Suc 0..<3] = [Suc 0, 2]" by (simp add: upt_rec)
  have r: "callGeminiAPI overloaded_400_provider None 3 =
             (Thrown ''OVERLOADED'', \<lparr>calls = 3, waits = [30000, 120000]\<rparr>)"
    using gateway_failures [of None 3 3 overloaded_400_provider "\<lambda>k. Overloaded", OF f _ _ c]
      loop_last_failure [of None overloaded_400_provider 3 Overloaded, OF f l]
    by (simp add: u)
  show ?thesis
    by (simp only: r fst_conv) (simp add: overloaded_400_provider_def)
qed

lemma try_attempt_oversize:
  "\<not> fits fd \<Longrightarrow> try_attempt P fd k tr =
     (Caught None ''File too large for processing. Please use a smaller file (< 20MB).'', tr)"
  by (auto simp: try_attempt_def fits_def split: option.splits)

lemma classify_too_large:
  "classify None ''File too large for processing. Please use a smaller file (< 20MB).'' = OtherFailure"
  by (simp add: classify_def)

lemma loop_oversize:
  assumes "\<not> fits fd" "1 \<le> a" "a \<le> n"
  shows "callGeminiAPI_loop P fd n a tr =
           (Thrown ''FAILED_AFTER_RETRIES: File too large for processing. Please use a smaller file (< 20MB).'',
            \<lparr>calls = calls tr, waits = waits tr @ map (\<lambda>j. 5000 * j) [a..<n]\<rparr>)"
  using assms
proof (induction "n - a" arbitrary: a tr)
  case 0
  then have "a = n" by simp
  moreover have "on_error n n None ''File too large for processing. Please use a smaller file (< 20MB).'' =
      Throw (terminal_error OtherFailure ''File too large for processing. Please use a smaller file (< 20MB).'')"
    using classify_too_large by (intro on_error_last) auto
  ultimately show ?case
    using 0 by (subst callGeminiAPI_loop.simps) (simp add: try_attempt_oversize trace_update)
next
  case (Suc d)
  then have lt: "a < n" by simp
  have "on_error n a None ''File too large for processing. Please use a smaller file (< 20MB).'' =
      Continue (backoff OtherFailure a)"
    using classify_too_large Suc.prems lt by (intro on_error_continue) auto
  then have "callGeminiAPI_loop P fd n a tr =
      callGeminiAPI_loop P fd n (Suc a) \<lparr>calls = calls tr, waits = waits tr @ [5000 * a]\<rparr>"
    using Suc.prems lt by (subst callGeminiAPI_loop.simps) (simp add: try_attempt_oversize trace_update)
  also have "\<dots> = (Thrown ''FAILED_AFTER_RETRIES: File too large for processing. Please use a smaller file (< 20MB).'',
            \<lparr>calls = calls tr, waits = (waits tr @ [5000 * a]) @ map (\<lambda>j. 5000 * j) [Suc a..<n]\<rparr>)"
    using Suc.hyps(2) Suc.prems lt
    by (subst Suc.hyps(1)) auto
  finally show ?case using lt by (simp add: upt_conv_Cons)
qed

text \<open>
  Claim C2 against the code. The size check throws inside the \<^verbatim>\<open>try\<close> block of the
  attempt, so the loop's own \<^verbatim>\<open>catch\<close> handles it as a generic failure: for a 21 MB
  attachment and three attempts no network call is made, but the call waits 5 s and 10 s
  and throws \<^verbatim>\<open>FAILED_AFTER_RETRIES\<close>, whatever the provider would answer.
\<close>

theorem oversized_attachment_is_retried:
  "callGeminiAPI P (Some \<lparr>mimeType = ''video/mp4'', byteLength = 21 * (1024 * 1024)\<rparr>) 3 =
     (Thrown ''FAILED_AFTER_RETRIES: File too large for processing. Please use a smaller file (< 20MB).'',
      \<lparr>calls = 0, waits = [5000, 10000]\<rparr>)"
proof -
  have u: "[Suc 0..<3] = [Suc 0, 2]" by (simp add: upt_rec)
  have "\<not> fits (Some \<lparr>mimeType = ''video/mp4'', byteLength = 21 * (1024 * 1024)\<rparr>)"
    by (simp add: fits_def)
  then show ?thesis
    by (simp add: callGeminiAPI_def no_trace_def loop_oversize u)
qed

text \<open>
  An instance of the above for C2: a provider that would answer every request at once is
  never asked, and the error thrown is not a payload-size error.
\<close>

theorem oversized_attachment_is_retried_witness:
  "fst (callGeminiAPI (\<lambda>k. Candidates (Some ''ok''))
          (Some \<lparr>mimeType = ''video/mp4'', byteLength = 21 * (1024 * 1024)\<rparr>) 3)
     \<noteq> Thrown ''PAYLOAD_TOO_LARGE''
   \<and> calls (snd (callGeminiAPI (\<lambda>k. Candidates (Some ''ok''))
          (Some \<lparr>mimeType = ''video/mp4'', byteLength = 21 * (1024 * 1024)\<rparr>) 3)) = 0
   \<and> waits (snd (callGeminiAPI (\<lambda>k. Candidates (Some ''ok''))
          (Some \<lparr>mimeType = ''video/mp4'', byteLength = 21 * (1024 * 1024)\<rparr>) 3)) = [5000, 10000]"
  using oversized_attachment_is_retried [of "\<lambda>k. Candidates (Some ''ok'')"]
  by simp

subsection \<open>Preconditions, force-fallback and size caps\<close>


text \<open>
  Claim C8. When \<^verbatim>\<open>results.cvAnalysis\<close> and \<^verbatim>\<open>results.transcription\<close> are not both present,
  the technical-analysis request answers 400 ``Previous analysis steps not completed''
  and returns the session as it was: \<^verbatim>\<open>status\<close> and every entry of \<^verbatim>\<open>results\<close> are
  unchanged, and no gateway call is made.
\<close>

theorem technical_analysis_precondition:
  assumes "results s ''cvAnalysis'' = None \<or> results s ''transcription'' = None"
  shows "technical_analysis e s = (s, Fail 400 ''Previous analysis steps not completed'' [], no_trace)"
  using assms by (auto simp: technical_analysis_def)

text \<open>
  An instance of C8: technical analysis requested on a freshly created session.
\<close>

theorem technical_analysis_precondition_witness:
  "technical_analysis healthy_env scenario_session =
     (scenario_session, Fail 400 ''Previous analysis steps not completed'' [], no_trace)"
  using technical_analysis_precondition [of scenario_session healthy_env]
  by (simp add: scenario_session_def)

text \<open>
  Claim C10. The force-fallback route knows the step names \<^verbatim>\<open>cv_analysis\<close>,
  \<^verbatim>\<open>transcription\<close> and \<^verbatim>\<open>face_analysis\<close> only. For every other step name it answers 400
  with the list of these three names and leaves the session unchanged; for the three
  names it never gives that answer.
\<close>

theorem fallback_only_for_three_steps:
  "(step \<notin> {''cv_analysis'', ''transcription'', ''face_analysis''} \<longrightarrow>
      fallback step s =
        (s, Fail 400 ''Fallback not available for this step''
              [''cv_analysis'', ''transcription'', ''face_analysis''], no_trace))
   \<and> (step \<in> {''cv_analysis'', ''transcription'', ''face_analysis''} \<longrightarrow>
      fst (snd (fallback step s)) \<noteq>
        Fail 400 ''Fallback not available for this step''
          [''cv_analysis'', ''transcription'', ''face_analysis''])"
  by (auto simp: fallback_def split: option.splits)

text \<open>
  Instances of C10: force-fallback of \<^verbatim>\<open>technical_analysis\<close> and of \<^verbatim>\<open>final_report\<close>.
\<close>

theorem fallback_only_for_three_steps_witness:
  "fallback ''technical_analysis'' scenario_session =
     (scenario_session, Fail 400 ''Fallback not available for this step''
        [''cv_analysis'', ''transcription'', ''face_analysis''], no_trace)
   \<and> fallback ''final_report'' scenario_session =
     (scenario_session, Fail 400 ''Fallback not available for this step''
        [''cv_analysis'', ''transcription'', ''face_analysis''], no_trace)"
  using fallback_only_for_three_steps [of "''technical_analysis''" scenario_session]
    fallback_only_for_three_steps [of "''final_report''" scenario_session]
  by simp

lemma mediaPath_status [simp]: "mediaPath (s\<lparr>status := x\<rparr>) = mediaPath s"
  by (simp add: mediaPath_def)

lemma initialize_oversized_video:
  assumes "video_file req = Some v" "fileSize v > 10 * MB"
  shows "initialize req sid t =
           (None,
            if cv_file req \<noteq> None \<and> truthy (body_jobDescription req)
            then Fail 400 ''Video file too large'' []
            else Fail 400 ''Missing required fields: (audio OR video), cv, and jobDescription are required'' [],
            no_trace)"
  using assms by (simp add: initialize_def split: option.splits)

lemma transcribe_media_oversized_video:
  assumes "mediaType s = Video" "mediaPath s = Some p" "p \<noteq> []" "stat e p = Some sz" "sz > 10 * MB"
  shows "transcribe_media e s =
           (s\<lparr>status := ''error''\<rparr>, Fail 400 ''video file too large for processing'' [], no_trace)"
  using assms by (simp add: transcribe_media_def Let_def)

text \<open>
  Claim C9. A video larger than 10 MB is rejected with no gateway call: at session
  creation the request is answered 400 and no session is created; at the transcription
  stage of a video session whose file \<^verbatim>\<open>fs.stat\<close> reports above 10 MB the request is
  answered 400, the status becomes \<^verbatim>\<open>error\<close>, and the number of network calls is zero.
\<close>

theorem oversized_video_rejected_before_gateway:
  "(video_file req = Some v \<and> fileSize v > 10 * MB \<longrightarrow>
      fst (initialize req sid t) = None
      \<and> fst (snd (initialize req sid t)) =
          (if cv_file req \<noteq> None \<and> truthy (body_jobDescription req)
           then Fail 400 ''Video file too large'' []
           else Fail 400 ''Missing required fields: (audio OR video), cv, and jobDescription are required'' [])
      \<and> calls (snd (snd (initialize req sid t))) = 0)
   \<and> (mediaType s = Video \<and> mediaPath s = Some p \<and> p \<noteq> [] \<and> stat e p = Some sz \<and> sz > 10 * MB \<longrightarrow>
      fst (transcribe_media e s) = s\<lparr>status := ''error''\<rparr>
      \<and> fst (snd (transcribe_media e s)) = Fail 400 ''video file too large for processing'' []
      \<and> calls (snd (snd (transcribe_media e s))) = 0)"
proof (intro conjI impI)
  assume a: "video_file req = Some v \<and> fileSize v > 10 * MB"
  then have i: "initialize req sid t =
           (None,
            if cv_file req \<noteq> None \<and> truthy (body_jobDescription req)
            then Fail 400 ''Video file too large'' []
            else Fail 400 ''Missing required fields: (audio OR video), cv, and jobDescription are required'' [],
            no_trace)"
    by (intro initialize_oversized_video) auto
  show "fst (initialize req sid t) = None" by (simp only: i fst_conv)
  show "fst (snd (initialize req sid t)) =
          (if cv_file req \<noteq> None \<and> truthy (body_jobDescription req)
           then Fail 400 ''Video file too large'' []
           else Fail 400 ''Missing required fields: (audio OR video), cv, and jobDescription are required'' [])"
    by (simp only: i fst_conv snd_conv)
  show "calls (snd (snd (initialize req sid t))) = 0"
    by (simp only: i snd_conv) (simp add: no_trace_def)
next
  assume a: "mediaType s = Video \<and> mediaPath s = Some p \<and> p \<noteq> [] \<and> stat e p = Some sz \<and> sz > 10 * MB"
  then have tm: "transcribe_media e s =
           (s\<lparr>status := ''error''\<rparr>, Fail 400 ''video file too large for processing'' [], no_trace)"
    by (intro transcribe_media_oversized_video) auto
  show "fst (transcribe_media e s) = s\<lparr>status := ''error''\<rparr>" by (simp only: tm fst_conv)
  show "fst (snd (transcribe_media e s)) = Fail 400 ''video file too large for processing'' []"
    by (simp only: tm fst_conv snd_conv)
  show "calls (snd (snd (transcribe_media e s))) = 0"
    by (simp only: tm snd_conv) (simp add: no_trace_def)
qed

text \<open>
  An instance of C9: an 11 MB upload at creation, and an 11 MB file at transcription.
\<close>

theorem oversized_video_rejected_before_gateway_witness:
  "initialize oversized_request ''s2'' 0 = (None, Fail 400 ''Video file too large'' [], no_trace)
   \<and> fst (snd (transcribe_media grown_file_env scenario_session)) =
       Fail 400 ''video file too large for processing'' []
   \<and> status (fst (transcribe_media grown_file_env scenario_session)) = ''error''
   \<and> calls (snd (snd (transcribe_media grown_file_env scenario_session))) = 0"
proof -
  have v: "video_file oversized_request =
             Some \<lparr>filePath = ''uploads/video-2.mp4'', fileSize = 11 * MB, originalname = ''long.mp4''\<rparr>"
    by (simp add: oversized_request_def)
  have p: "mediaPath scenario_session = Some ''uploads/video-1.mp4''"
    by (simp add: mediaPath_def scenario_session_def)
  have m: "mediaType scenario_session = Video" by (simp add: scenario_session_def)
  have st: "stat grown_file_env ''uploads/video-1.mp4'' = Some (11 * MB)"
    by (simp add: grown_file_env_def)
  have c: "cv_file oversized_request \<noteq> None" "truthy (body_jobDescription oversized_request)"
    by (simp_all add: oversized_request_def)
  have i: "initialize oversized_request ''s2'' 0 = (None, Fail 400 ''Video file too large'' [], no_trace)"
    by (simp add: initialize_def oversized_request_def MB_def)
  show ?thesis
    using oversized_video_rejected_before_gateway
      [of oversized_request "\<lparr>filePath = ''uploads/video-2.mp4'', fileSize = 11 * MB, originalname = ''long.mp4''\<rparr>"
          "''s2''" 0 scenario_session "''uploads/video-1.mp4''" grown_file_env "11 * MB"]
      v p m st i
    by (simp add: MB_def)
qed

subsection \<open>What a stage handler may change\<close>

lemma on_error_Continue_lt: "on_error n a c m = Continue w \<Longrightarrow> a \<le> n \<Longrightarrow> a < n"
  by (auto simp: on_error_def split: if_splits)

lemma try_attempt_Got: "try_attempt P fd k tr = (Got x, tr1) \<Longrightarrow> P k = Candidates x"
  by (auto simp: try_attempt_def split: if_splits provider_response.splits)

lemma has_text_returned: "truthy x \<Longrightarrow> has_text (returned x)"
  by (cases x) auto

lemma loop_has_text:
  "\<forall>k t. P k = Candidates t \<longrightarrow> truthy t \<Longrightarrow> a \<le> n \<Longrightarrow>
   has_text (fst (callGeminiAPI_loop P fd n a tr))"
proof (induction P fd n a tr rule: callGeminiAPI_loop.induct)
  case (1 P fd retries attempt tr)
  obtain o1 tr1 where t: "try_attempt P fd attempt tr = (o1, tr1)" by (cases "try_attempt P fd attempt tr")
  show ?case
  proof (cases o1)
    case (Got x)
    then have "P attempt = Candidates x" using t try_attempt_Got by blast
    then have "truthy x" using "1.prems"(1) by blast
    then show ?thesis
      using 1 t Got by (subst callGeminiAPI_loop.simps) (simp add: has_text_returned)
  next
    case (Caught c m)
    show ?thesis
    proof (cases "on_error retries attempt c m")
      case (Throw x)
      then show ?thesis using 1 t Caught by (subst callGeminiAPI_loop.simps) simp
    next
      case (Continue w)
      then have "attempt < retries" using "1.prems"(2) on_error_Continue_lt by blast
      then have "has_text (fst (callGeminiAPI_loop P fd retries (attempt + 1) (tr1\<lparr>waits := waits tr1 @ [w]\<rparr>)))"
        using "1.IH" [OF "1.prems"(2) t [symmetric] Caught Continue "1.prems"(1)] by simp
      then show ?thesis using 1 t Caught Continue by (subst callGeminiAPI_loop.simps) simp
    qed
  qed
qed

lemma callGeminiAPI_has_text:
  "answers_with_text e \<Longrightarrow> 1 \<le> n \<Longrightarrow> has_text (fst (callGeminiAPI (gemini e pr fd) fd n))"
  by (simp add: callGeminiAPI_def answers_with_text_def loop_has_text)

lemma call_with_file_has_text:
  "answers_with_text e \<Longrightarrow> 1 \<le> n \<Longrightarrow> has_text (fst (call_with_file e pr p n))"
  by (simp add: call_with_file_def callGeminiAPI_has_text Let_def split: option.splits)

lemma callGeminiAPI_textD:
  "callGeminiAPI (gemini e pr fd) fd n = (r, tr) \<Longrightarrow> answers_with_text e \<Longrightarrow> 1 \<le> n \<Longrightarrow> has_text r"
  using callGeminiAPI_has_text [of e n pr fd] by simp

lemma fallback_texts_truthy:
  "generateFallbackCVAnalysis f jd \<noteq> []"
  "generateFallbackTranscription f mt jd \<noteq> []"
  "generateFallbackFaceAnalysis f jd \<noteq> []"
  by (simp_all add: generateFallbackCVAnalysis_def generateFallbackTranscription_def
      generateFallbackFaceAnalysis_def)

lemma stage_effect_frame:
  "stage_effect Q K C s s' \<Longrightarrow> unchanged_inputs s s' \<and> (\<forall>k. k \<noteq> K \<longrightarrow> results s' k = results s k)"
  by (simp add: stage_effect_def)

lemma stage_effect_mono:
  "stage_effect Q K C s s' \<Longrightarrow> (\<And>v. Q v \<Longrightarrow> Q' v) \<Longrightarrow> stage_effect Q' K C s s'"
  by (auto simp: stage_effect_def)

lemma stage_effect_refl: "stage_effect Q K C s s"
  by (simp add: stage_effect_def unchanged_inputs_def)

lemma stage_effect_status:
  "x \<in> set transient_statuses \<Longrightarrow> stage_effect Q K C s (s\<lparr>status := x\<rparr>)"
  by (simp add: stage_effect_def unchanged_inputs_def)

lemma error_transient: "''error'' \<in> set transient_statuses"
  by (simp add: transient_statuses_def)

lemma stage_effect_store:
  "st \<in> set C \<Longrightarrow> Q v \<Longrightarrow>
   stage_effect Q K C s ((assign_result K v (s\<lparr>status := x\<rparr>))\<lparr>status := st\<rparr>)"
  "st \<in> set C \<Longrightarrow> Q v \<Longrightarrow>
   stage_effect Q K C s (assign_result K v (s\<lparr>status := st\<rparr>))"
  "st \<in> set C \<Longrightarrow> Q v \<Longrightarrow>
   stage_effect Q K C s ((assign_result K v s)\<lparr>status := st\<rparr>)"
  "st \<in> set C \<Longrightarrow> Q v \<Longrightarrow>
   stage_effect Q K C s ((assign_result K v (s\<lparr>status := x\<rparr>))\<lparr>status := st, completedAt := c\<rparr>)"
  by (simp_all add: stage_effect_def unchanged_inputs_def assign_result_def)

lemma analyze_cv_settle_effect:
  assumes "G \<longrightarrow> has_text (fst out)"
  shows "stage_effect (\<lambda>v. G \<longrightarrow> truthy v) ''cvAnalysis'' [''cv_analyzed'', ''cv_analyzed_fallback''] s
           (fst (analyze_cv_settle (s\<lparr>status := x\<rparr>) out))"
proof -
  obtain r tr where out: "out = (r, tr)" by (cases out)
  show ?thesis
  proof (cases r)
    case (Returned t)
    then show ?thesis using out assms by (simp add: analyze_cv_settle_def stage_effect_store)
  next
    case ReturnedUndefined
    then show ?thesis using out assms by (simp add: analyze_cv_settle_def stage_effect_store)
  next
    case (Thrown m)
    then show ?thesis using out
      by (simp add: analyze_cv_settle_def stage_effect_store stage_effect_status error_transient
          fallback_texts_truthy)
  qed
qed

lemma analyze_cv_effect:
  "stage_effect (\<lambda>v. answers_with_text e \<longrightarrow> truthy v) ''cvAnalysis''
     [''cv_analyzed'', ''cv_analyzed_fallback''] s (fst (analyze_cv e s))"
  by (simp add: analyze_cv_def Let_def analyze_cv_settle_effect call_with_file_has_text)

lemma transcribe_media_settle_effect:
  assumes "G \<longrightarrow> has_text (fst out)"
  shows "stage_effect (\<lambda>v. G \<longrightarrow> truthy v) ''transcription''
           [media_name mt @ ''_transcribed'', media_name mt @ ''_transcribed_fallback''] s
           (fst (transcribe_media_settle (s\<lparr>status := x\<rparr>) mt p out))"
proof -
  obtain r tr where out: "out = (r, tr)" by (cases out)
  show ?thesis
  proof (cases r)
    case (Returned t)
    then show ?thesis using out assms by (simp add: transcribe_media_settle_def stage_effect_store)
  next
    case ReturnedUndefined
    then show ?thesis using out assms by (simp add: transcribe_media_settle_def stage_effect_store)
  next
    case (Thrown m)
    then show ?thesis using out
      by (simp add: transcribe_media_settle_def stage_effect_store stage_effect_status error_transient
          fallback_texts_truthy)
  qed
qed

lemmas transcribe_media_settle_effect_audio =
  transcribe_media_settle_effect [where mt = Audio, simplified]

lemma transcribe_media_try_has_text:
  "answers_with_text e \<Longrightarrow> has_text (fst (transcribe_media_try e mt p sz))"
  by (simp add: transcribe_media_try_def call_with_file_has_text)

lemma transcribe_media_effect:
  "stage_effect (\<lambda>v. answers_with_text e \<longrightarrow> truthy v) ''transcription''
     [media_name (mediaType s) @ ''_transcribed'', media_name (mediaType s) @ ''_transcribed_fallback'']
     s (fst (transcribe_media e s))"
proof -
  have t: "''transcribing_media'' \<in> set transient_statuses" by (simp add: transient_statuses_def)
  show ?thesis
    by (simp add: transcribe_media_def Let_def transcribe_media_settle_effect_audio
        transcribe_media_settle_effect transcribe_media_try_has_text stage_effect_status t
        error_transient split: option.splits)
qed

lemma face_analysis_settle_effect:
  assumes "G \<longrightarrow> has_text (fst out)"
  shows "stage_effect (\<lambda>v. G \<longrightarrow> truthy v) ''faceAnalysis'' [''face_analyzed'', ''face_analyzed_fallback''] s
           (fst (face_analysis_settle (s\<lparr>status := x\<rparr>) p out))"
proof -
  obtain r tr where out: "out = (r, tr)" by (cases out)
  show ?thesis
  proof (cases r)
    case (Returned t)
    then show ?thesis using out assms by (simp add: face_analysis_settle_def stage_effect_store)
  next
    case ReturnedUndefined
    then show ?thesis using out assms by (simp add: face_analysis_settle_def stage_effect_store)
  next
    case (Thrown m)
    then show ?thesis using out
      by (simp add: face_analysis_settle_def stage_effect_store stage_effect_status error_transient
          fallback_texts_truthy)
  qed
qed

lemma face_analysis_try_has_text:
  "answers_with_text e \<Longrightarrow> has_text (fst (face_analysis_try e p sz))"
  by (simp add: face_analysis_try_def call_with_file_has_text)

lemma face_analysis_effect:
  "stage_effect (\<lambda>v. answers_with_text e \<longrightarrow> truthy v) ''faceAnalysis''
     [''face_analyzed'', ''face_analyzed_fallback''] s (fst (face_analysis e s))"
  by (simp add: face_analysis_def Let_def face_analysis_settle_effect face_analysis_try_has_text
      stage_effect_status stage_effect_refl error_transient split: option.splits)

lemma text_stage_effect:
  assumes "G \<longrightarrow> has_text (fst out)" "x \<in> set transient_statuses" "st \<in> set C"
  shows "stage_effect (\<lambda>v. G \<longrightarrow> truthy v) K C s
           (fst (case out of
                   (Thrown m, tr) \<Rightarrow> (s\<lparr>status := x\<rparr>, f, tr)
                 | (r, tr) \<Rightarrow> ((assign_result K (returned_value r) (s\<lparr>status := x\<rparr>))\<lparr>status := st\<rparr>, d, tr)))"
proof -
  obtain r tr where out: "out = (r, tr)" by (cases out)
  show ?thesis
    using assms out by (cases r) (simp_all add: stage_effect_store stage_effect_status)
qed

lemma text_stage_effect_final:
  assumes "G \<longrightarrow> has_text (fst out)" "x \<in> set transient_statuses" "st \<in> set C"
  shows "stage_effect (\<lambda>v. G \<longrightarrow> truthy v) K C s
           (fst (case out of
                   (Thrown m, tr) \<Rightarrow> (s\<lparr>status := x\<rparr>, f, tr)
                 | (r, tr) \<Rightarrow>
                     ((assign_result K (returned_value r) (s\<lparr>status := x\<rparr>))
                        \<lparr>status := st, completedAt := c\<rparr>, d, tr)))"
proof -
  obtain r tr where out: "out = (r, tr)" by (cases out)
  show ?thesis
    using assms out by (cases r) (simp_all add: stage_effect_store stage_effect_status)
qed

lemma technical_analysis_effect:
  "stage_effect (\<lambda>v. answers_with_text e \<longrightarrow> truthy v) ''technicalAnalysis''
     [''technical_analyzed''] s (fst (technical_analysis e s))"
proof -
  have t: "''analyzing_technical'' \<in> set transient_statuses" by (simp add: transient_statuses_def)
  show ?thesis
    by (simp add: technical_analysis_def Let_def text_stage_effect callGeminiAPI_has_text
        stage_effect_refl t)
qed

lemma communication_analysis_effect:
  "stage_effect (\<lambda>v. answers_with_text e \<longrightarrow> truthy v) ''communicationAnalysis''
     [''communication_analyzed''] s (fst (communication_analysis e s))"
proof -
  have t: "''analyzing_communication'' \<in> set transient_statuses" by (simp add: transient_statuses_def)
  show ?thesis
    by (simp add: communication_analysis_def Let_def text_stage_effect callGeminiAPI_has_text
        stage_effect_refl t)
qed

lemma final_report_effect:
  "stage_effect (\<lambda>v. answers_with_text e \<longrightarrow> truthy v) ''finalReport'' [''completed''] s
     (fst (final_report e s))"
proof -
  have t: "''generating_final_report'' \<in> set transient_statuses" by (simp add: transient_statuses_def)
  show ?thesis
    by (simp add: final_report_def Let_def text_stage_effect_final callGeminiAPI_has_text
        stage_effect_refl t)
qed

lemma fallback_effect:
  "stage_effect truthy (stage_key step) (completed_values (mediaType s) step) s (fst (fallback step s))"
  by (simp add: fallback_def stage_key_def completed_values_def stage_effect_store
      stage_effect_refl fallback_texts_truthy split: option.splits)

subsection \<open>Completed status and stored results\<close>

lemma handle_effect:
  "\<not> is_retry q \<Longrightarrow>
   stage_effect (\<lambda>v. request_answers_with_text q \<longrightarrow> truthy v)
     (stage_key (request_stage q)) (completed_values (mediaType s) (request_stage q)) s
     (fst (handle q s))"
proof (cases q)
  case (Fallback step)
  then show ?thesis using fallback_effect [of step s] by (simp add: stage_effect_def)
qed (simp_all add: stage_key_def completed_values_def analyze_cv_effect transcribe_media_effect
      face_analysis_effect technical_analysis_effect communication_analysis_effect
      final_report_effect)





lemma initialize_session:
  assumes "initialize req sid t = (Some s0, r, tr)"
  shows "status s0 = ''initialized''" "results s0 = Map.empty"
    "mediaType s0 = (if video_file req \<noteq> None then Video else Audio)"
  using assms by (auto simp: initialize_def split: option.splits if_splits)



subsection \<open>Retry and audio sessions\<close>

lemma face_analysis_audio:
  "mediaType s = Audio \<Longrightarrow>
   face_analysis e s = (s, Fail 400 ''Face analysis only available for video files'' [], no_trace)"
  by (simp add: face_analysis_def)

lemma fallback_face_analysis_audio:
  "mediaType s = Audio \<Longrightarrow>
   fallback ''face_analysis'' s = (s, Fail 400 ''Face analysis not available'' [], no_trace)"
  by (simp add: fallback_def)

lemma stage_key_face: "stage_key step = ''faceAnalysis'' \<longleftrightarrow> step = ''face_analysis''"
  by (simp add: stage_key_def)

lemma stage_names_disj:
  "step \<in> set stage_names \<Longrightarrow>
   step = ''cv_analysis'' \<or> step = ''transcription'' \<or> step = ''face_analysis'' \<or>
   step = ''technical_analysis'' \<or> step = ''communication_analysis'' \<or> step = ''final_report''"
  by (simp add: stage_names_def)

lemma retry_reset:
  assumes "step \<in> set stage_names"
  shows "retry step s =
           (s\<lparr>status := predecessor_completed s step, results := (results s)(stage_key step := None)\<rparr>,
            Redirect 307 (stage_route step @ sessionId s), no_trace)"
  using stage_names_disj [OF assms]
  by (elim disjE)
     (simp_all add: retry_def predecessor_completed_def stage_key_def stage_route_def)

lemma post_route:
  assumes "step \<in> set stage_names"
  shows "post e (stage_route step @ sessionId s) s = primary_operation e step s"
  using stage_names_disj [OF assms]
  by (elim disjE)
     (simp_all add: post_def stage_route_def primary_operation_def)

lemma primary_operation_effect:
  assumes "step \<in> set stage_names"
  shows "stage_effect (\<lambda>v. answers_with_text e \<longrightarrow> truthy v) (stage_key step)
           (completed_values (mediaType s) step) s (fst (primary_operation e step s))"
  using stage_names_disj [OF assms]
  by (elim disjE)
     (simp_all add: primary_operation_def stage_key_def completed_values_def analyze_cv_effect
        transcribe_media_effect face_analysis_effect technical_analysis_effect
        communication_analysis_effect final_report_effect)

lemma retry_stage_unfold:
  assumes "step \<in> set stage_names"
  shows "retry_stage e step s =
           primary_operation e step
             (s\<lparr>status := predecessor_completed s step, results := (results s)(stage_key step := None)\<rparr>)"
  using post_route [OF assms, of e
      "s\<lparr>status := predecessor_completed s step, results := (results s)(stage_key step := None)\<rparr>"]
  by (simp add: retry_stage_def retry_reset [OF assms])

lemma predecessor_completed_own_key:
  assumes "step \<in> set stage_names"
  shows "predecessor_completed (s\<lparr>results := (results s)(stage_key step := old)\<rparr>) step =
           predecessor_completed s step"
  using stage_names_disj [OF assms]
  by (elim disjE) (simp_all add: predecessor_completed_def stage_key_def)

subsection \<open>What a run of a stage stores\<close>

lemma analyze_cv_settle_result:
  "results (fst (analyze_cv_settle s1 (r, tr))) ''cvAnalysis'' =
     (case r of
        Returned t \<Rightarrow> Some t
      | ReturnedUndefined \<Rightarrow> None
      | Thrown m \<Rightarrow>
          if overload_message m
          then Some (generateFallbackCVAnalysis (basename (cvPath s1)) (jobDescription s1))
          else results s1 ''cvAnalysis'')"
  by (cases r) (simp_all add: analyze_cv_settle_def assign_result_def)

lemma analyze_cv_result:
  "results (fst (analyze_cv e s)) ''cvAnalysis'' = stage_result e ''cv_analysis'' s"
proof -
  obtain r tr where c: "call_with_file e CvPrompt (cvPath s) 2 = (r, tr)"
    by (cases "call_with_file e CvPrompt (cvPath s) 2")
  show ?thesis
    by (simp add: analyze_cv_def Let_def c analyze_cv_settle_result stage_result_def
        stage_admits_def stage_call_def stage_fallback_def stage_key_def split: gw_result.splits)
qed

lemma transcribe_media_settle_result:
  "results (fst (transcribe_media_settle s1 mt p (r, tr))) ''transcription'' =
     (case r of
        Returned t \<Rightarrow> Some t
      | ReturnedUndefined \<Rightarrow> None
      | Thrown m \<Rightarrow>
          if overload_message m
          then Some (generateFallbackTranscription (basename p) mt (jobDescription s1))
          else results s1 ''transcription'')"
  by (cases r) (simp_all add: transcribe_media_settle_def assign_result_def)

lemma processing_limit_not_overload:
  "\<not> overload_message (''File too large for current API conditions ('' @ ''20'' @ ''MB limit)'')"
  "\<not> overload_message (''File too large for current API conditions ('' @ ''8'' @ ''MB limit)'')"
  "\<not> overload_message ''File too large for face analysis processing (8MB limit)''"
  by (simp_all add: overload_message_def)

lemma transcribe_media_result:
  "results (fst (transcribe_media e s)) ''transcription'' = stage_result e ''transcription'' s"
proof (cases "mediaPath s")
  case None
  then show ?thesis
    by (simp add: transcribe_media_def Let_def stage_result_def stage_admits_def stage_key_def)
next
  case (Some p)
  show ?thesis
  proof (cases "p = []")
    case True
    then show ?thesis
      using Some by (simp add: transcribe_media_def Let_def stage_result_def stage_admits_def stage_key_def)
  next
    case False
    show ?thesis
    proof (cases "stat e p")
      case None
      then show ?thesis
        using Some False
        by (simp add: transcribe_media_def Let_def stage_result_def stage_admits_def stage_key_def)
    next
      case sz: (Some sz)
      let ?limit = "(if mediaType s = Audio then 20 else 8) * MB"
      let ?cap = "(if mediaType s = Audio then 25 else 10) * MB"
      show ?thesis
      proof (cases "sz \<le> ?limit")
        case True
        then have cap: "\<not> sz > ?cap" by (simp split: if_splits)
        obtain r tr where c: "call_with_file e (TranscriptionPrompt (mediaType s)) p 3 = (r, tr)"
          by (cases "call_with_file e (TranscriptionPrompt (mediaType s)) p 3")
        have t: "transcribe_media_try e (mediaType s) p sz = (r, tr)"
          using True c by (simp add: transcribe_media_try_def)
        have a: "stage_admits e ''transcription'' s"
          using Some False sz True by (simp add: stage_admits_def)
        have "results (fst (transcribe_media e s)) ''transcription'' =
                results (fst (transcribe_media_settle (s\<lparr>status := ''transcribing_media''\<rparr>)
                                (mediaType s) p (r, tr))) ''transcription''"
          using Some False sz cap t by (simp add: transcribe_media_def Let_def)
        then show ?thesis
          using Some c a
          by (simp add: transcribe_media_settle_result stage_result_def stage_call_def
              stage_fallback_def stage_key_def split: gw_result.splits)
      next
        case over: False
        then have a: "\<not> stage_admits e ''transcription'' s"
          using Some False sz by (simp add: stage_admits_def)
        show ?thesis
        proof (cases "sz > ?cap")
          case True
          then show ?thesis
            using Some False sz a
            by (simp add: transcribe_media_def Let_def stage_result_def stage_key_def)
        next
          case cap: False
          have t: "transcribe_media_try e (mediaType s) p sz =
                     (Thrown (''File too large for current API conditions (''
                               @ (if mediaType s = Audio then ''20'' else ''8'') @ ''MB limit)''), no_trace)"
            using over by (simp add: transcribe_media_try_def)
          have n: "\<not> overload_message (''File too large for current API conditions (''
                               @ (if mediaType s = Audio then ''20'' else ''8'') @ ''MB limit)'')"
            using processing_limit_not_overload by (cases "mediaType s = Audio") simp_all
          have "results (fst (transcribe_media e s)) ''transcription'' =
                results (fst (transcribe_media_settle (s\<lparr>status := ''transcribing_media''\<rparr>)
                                (mediaType s) p
                                (Thrown (''File too large for current API conditions (''
                                   @ (if mediaType s = Audio then ''20'' else ''8'') @ ''MB limit)''),
                                 no_trace))) ''transcription''"
            using Some False sz cap t by (simp add: transcribe_media_def Let_def)
          then show ?thesis
            using a n by (simp only: transcribe_media_settle_result) (simp add: stage_result_def stage_key_def)
        qed
      qed
    qed
  qed
qed

lemma face_analysis_settle_result:
  "results (fst (face_analysis_settle s1 p (r, tr))) ''faceAnalysis'' =
     (case r of
        Returned t \<Rightarrow> Some t
      | ReturnedUndefined \<Rightarrow> None
      | Thrown m \<Rightarrow>
          if overload_message m
          then Some (generateFallbackFaceAnalysis (basename p) (jobDescription s1))
          else results s1 ''faceAnalysis'')"
  by (cases r) (simp_all add: face_analysis_settle_def assign_result_def)

lemma face_analysis_result:
  "results (fst (face_analysis e s)) ''faceAnalysis'' = stage_result e ''face_analysis'' s"
proof (cases "mediaType s = Video \<and> truthy (videoPath s)")
  case False
  then have "\<not> stage_admits e ''face_analysis'' s"
    by (cases "videoPath s") (auto simp: stage_admits_def)
  then show ?thesis
    using False by (auto simp: face_analysis_def stage_result_def stage_key_def)
next
  case True
  then obtain p where p: "videoPath s = Some p" "p \<noteq> []" "mediaType s = Video"
    by (cases "videoPath s") auto
  show ?thesis
  proof (cases "stat e p")
    case None
    then show ?thesis
      using p by (simp add: face_analysis_def Let_def stage_result_def stage_admits_def stage_key_def)
  next
    case sz: (Some sz)
    show ?thesis
    proof (cases "sz \<le> 8 * MB")
      case True
      then have cap: "\<not> sz > 10 * MB" by simp
      obtain r tr where c: "call_with_file e FacePrompt p 3 = (r, tr)"
        by (cases "call_with_file e FacePrompt p 3")
      have t: "face_analysis_try e p sz = (r, tr)"
        using True c by (simp add: face_analysis_try_def)
      have a: "stage_admits e ''face_analysis'' s"
        using p sz True by (simp add: stage_admits_def)
      have "results (fst (face_analysis e s)) ''faceAnalysis'' =
              results (fst (face_analysis_settle (s\<lparr>status := ''analyzing_face''\<rparr>) p (r, tr))) ''faceAnalysis''"
        using p sz cap t by (simp add: face_analysis_def Let_def)
      then show ?thesis
        using p c a
        by (simp add: face_analysis_settle_result stage_result_def stage_call_def
            stage_fallback_def stage_key_def split: gw_result.splits)
    next
      case over: False
      then have a: "\<not> stage_admits e ''face_analysis'' s"
        using p sz by (simp add: stage_admits_def)
      show ?thesis
      proof (cases "sz > 10 * MB")
        case True
        then show ?thesis
          using p sz a by (simp add: face_analysis_def Let_def stage_result_def stage_key_def)
      next
        case cap: False
        have t: "face_analysis_try e p sz =
                   (Thrown ''File too large for face analysis processing (8MB limit)'', no_trace)"
          using over by (simp add: face_analysis_try_def)
        have "results (fst (face_analysis e s)) ''faceAnalysis'' =
              results (fst (face_analysis_settle (s\<lparr>status := ''analyzing_face''\<rparr>) p
                 (Thrown ''File too large for face analysis processing (8MB limit)'', no_trace))) ''faceAnalysis''"
          using p sz cap t by (simp add: face_analysis_def Let_def)
        then show ?thesis
          using a processing_limit_not_overload(3)
          by (simp only: face_analysis_settle_result) (simp add: stage_result_def stage_key_def)
      qed
    qed
  qed
qed

lemma text_stage_result:
  "results (fst (case out of
                   (Thrown m, tr) \<Rightarrow> (s\<lparr>status := x\<rparr>, f, tr)
                 | (r, tr) \<Rightarrow> ((assign_result K (returned_value r) (s\<lparr>status := x\<rparr>))\<lparr>status := st\<rparr>, d, tr))) K =
     (case fst out of Returned t \<Rightarrow> Some t | ReturnedUndefined \<Rightarrow> None | Thrown m \<Rightarrow> results s K)"
proof -
  obtain r tr where out: "out = (r, tr)" by (cases out)
  show ?thesis using out by (cases r) (simp_all add: assign_result_def)
qed

lemma text_stage_result_final:
  "results (fst (case out of
                   (Thrown m, tr) \<Rightarrow> (s\<lparr>status := x\<rparr>, f, tr)
                 | (r, tr) \<Rightarrow>
                     ((assign_result K (returned_value r) (s\<lparr>status := x\<rparr>))
                        \<lparr>status := st, completedAt := c\<rparr>, d, tr))) K =
     (case fst out of Returned t \<Rightarrow> Some t | ReturnedUndefined \<Rightarrow> None | Thrown m \<Rightarrow> results s K)"
proof -
  obtain r tr where out: "out = (r, tr)" by (cases out)
  show ?thesis using out by (cases r) (simp_all add: assign_result_def)
qed

lemma faceAnalysisSection_status [simp]:
  "faceAnalysisSection (s\<lparr>status := x\<rparr>) = faceAnalysisSection s"
  by (simp add: faceAnalysisSection_def)

lemma technical_analysis_result:
  "results (fst (technical_analysis e s)) ''technicalAnalysis'' = stage_result e ''technical_analysis'' s"
  by (simp add: technical_analysis_def Let_def text_stage_result stage_result_def stage_admits_def
      stage_call_def stage_fallback_def stage_key_def split: gw_result.splits)

lemma communication_analysis_result:
  "results (fst (communication_analysis e s)) ''communicationAnalysis'' =
     stage_result e ''communication_analysis'' s"
  by (simp add: communication_analysis_def Let_def text_stage_result stage_result_def stage_admits_def
      stage_call_def stage_fallback_def stage_key_def split: gw_result.splits)

lemma final_report_result:
  "results (fst (final_report e s)) ''finalReport'' = stage_result e ''final_report'' s"
  by (simp add: final_report_def requiredAnalyses_def Let_def text_stage_result_final stage_result_def
      stage_admits_def stage_call_def stage_fallback_def stage_key_def split: gw_result.splits)

lemma primary_operation_result:
  assumes "step \<in> set stage_names"
  shows "results (fst (primary_operation e step s)) (stage_key step) = stage_result e step s"
  using stage_names_disj [OF assms]
  by (elim disjE)
     (simp_all add: primary_operation_def stage_key_def analyze_cv_result transcribe_media_result
        face_analysis_result technical_analysis_result communication_analysis_result
        final_report_result)

text \<open>
  Claim C4. For each of the six stages, the retry route sets \<^verbatim>\<open>status\<close> to the completed
  state of the stage's predecessor, deletes the stage's key from \<^verbatim>\<open>results\<close> and redirects
  to the stage's route; the redirected request is the stage's primary operation run on
  the reset session. After the retry the stage's key holds exactly what this run of the
  stage produces on the reset session (the text the gateway returns, the fallback
  content on an overload, nothing when the run fails or is not admitted); every other key
  of \<^verbatim>\<open>results\<close> is as it was; and the outcome does not depend on the value the stage's
  key held before: the new result replaces the old one.
\<close>

theorem retry_resets_and_reinvokes:
  assumes "step \<in> set stage_names"
  shows "retry step s =
           (s\<lparr>status := predecessor_completed s step, results := (results s)(stage_key step := None)\<rparr>,
            Redirect 307 (stage_route step @ sessionId s), no_trace)
       \<and> retry_stage e step s =
           primary_operation e step
             (s\<lparr>status := predecessor_completed s step, results := (results s)(stage_key step := None)\<rparr>)
       \<and> results (fst (retry_stage e step s)) (stage_key step) =
           stage_result e step
             (s\<lparr>status := predecessor_completed s step, results := (results s)(stage_key step := None)\<rparr>)
       \<and> (\<forall>k. k \<noteq> stage_key step \<longrightarrow> results (fst (retry_stage e step s)) k = results s k)
       \<and> retry_stage e step (s\<lparr>results := (results s)(stage_key step := old)\<rparr>) = retry_stage e step s"
proof (intro conjI allI impI)
  let ?s1 = "s\<lparr>status := predecessor_completed s step, results := (results s)(stage_key step := None)\<rparr>"
  show "retry step s = (?s1, Redirect 307 (stage_route step @ sessionId s), no_trace)"
    using assms by (rule retry_reset)
  show u: "retry_stage e step s = primary_operation e step ?s1"
    using assms by (rule retry_stage_unfold)
  show "results (fst (retry_stage e step s)) (stage_key step) = stage_result e step ?s1"
    using assms by (simp only: u primary_operation_result)
  show "results (fst (retry_stage e step s)) k = results s k" if "k \<noteq> stage_key step" for k
  proof -
    have "stage_effect (\<lambda>v. answers_with_text e \<longrightarrow> truthy v) (stage_key step)
            (completed_values (mediaType ?s1) step) ?s1 (fst (primary_operation e step ?s1))"
      using assms by (rule primary_operation_effect)
    then have "results (fst (primary_operation e step ?s1)) k = results ?s1 k"
      using that by (simp add: stage_effect_def)
    then show ?thesis using that u by simp
  qed
  show "retry_stage e step (s\<lparr>results := (results s)(stage_key step := old)\<rparr>) = retry_stage e step s"
    using assms
    by (simp add: retry_stage_unfold predecessor_completed_own_key)
qed

lemma audio_session_step:
  assumes "mediaType s = Audio" "results s ''faceAnalysis'' = None"
  shows "mediaType (fst (handle q s)) = Audio \<and> results (fst (handle q s)) ''faceAnalysis'' = None"
proof (cases "is_retry q")
  case True
  then obtain step where q: "q = Retry step" by (cases q) auto
  show ?thesis using assms by (simp add: q retry_def)
next
  case no_retry: False
  note eff = handle_effect [OF no_retry, of s]
  then have mt: "mediaType (fst (handle q s)) = Audio"
    using assms by (simp add: stage_effect_def unchanged_inputs_def)
  show ?thesis
  proof (cases "request_stage q = ''face_analysis''")
    case face: True
    show ?thesis
    proof (cases q)
      case (FaceAnalysis e)
      then show ?thesis using assms by (simp add: face_analysis_audio)
    next
      case (Fallback step)
      then show ?thesis using face assms by (simp add: fallback_face_analysis_audio)
    next
      case (Retry step)
      then show ?thesis using no_retry by simp
    qed (use face in simp_all)
  next
    case False
    then have "stage_key (request_stage q) \<noteq> ''faceAnalysis''" by (simp add: stage_key_face)
    then show ?thesis using eff mt assms by (simp add: stage_effect_def)
  qed
qed

lemma audio_session_run:
  "mediaType s = Audio \<Longrightarrow> results s ''faceAnalysis'' = None \<Longrightarrow>
   mediaType (run reqs s) = Audio \<and> results (run reqs s) ''faceAnalysis'' = None"
  by (induction reqs arbitrary: s) (simp_all add: audio_session_step)

lemma retry_stage_face_audio:
  assumes "mediaType s = Audio"
  shows "retry_stage e ''face_analysis'' s =
           (s\<lparr>status := ''audio_transcribed'', results := (results s)(''faceAnalysis'' := None)\<rparr>,
            Fail 400 ''Face analysis only available for video files'' [], no_trace)"
proof -
  have m: "''face_analysis'' \<in> set stage_names" by (simp add: stage_names_def)
  show ?thesis
    using assms
    by (simp add: retry_stage_unfold [OF m] primary_operation_def predecessor_completed_def
        stage_key_def face_analysis_audio)
qed

text \<open>
  Claim C7. In a session created with \<^verbatim>\<open>mediaType\<close> audio, after any sequence of requests
  \<^verbatim>\<open>results.faceAnalysis\<close> is absent, and a face-analysis request is rejected with 400 and
  without a gateway call, whether it comes as the primary operation, as a force-fallback
  or through a retry; the retry leaves \<^verbatim>\<open>results.faceAnalysis\<close> absent too.
\<close>

theorem audio_session_never_analyses_face:
  assumes "initialize req sid t = (Some s0, r, tr)" and "mediaType s0 = Audio"
  shows "results (run reqs s0) ''faceAnalysis'' = None
       \<and> face_analysis e (run reqs s0) =
           (run reqs s0, Fail 400 ''Face analysis only available for video files'' [], no_trace)
       \<and> fallback ''face_analysis'' (run reqs s0) =
           (run reqs s0, Fail 400 ''Face analysis not available'' [], no_trace)
       \<and> snd (retry_stage e ''face_analysis'' (run reqs s0)) =
           (Fail 400 ''Face analysis only available for video files'' [], no_trace)
       \<and> results (fst (retry_stage e ''face_analysis'' (run reqs s0))) ''faceAnalysis'' = None"
proof -
  have "results s0 ''faceAnalysis'' = None"
    using initialize_session(2) [OF assms(1)] by simp
  then have a: "mediaType (run reqs s0) = Audio \<and> results (run reqs s0) ''faceAnalysis'' = None"
    using assms(2) by (intro audio_session_run)
  then show ?thesis
    by (simp add: face_analysis_audio fallback_face_analysis_audio retry_stage_face_audio)
qed

subsection \<open>The sample inputs evaluated\<close>

lemma audio_initialize:
  "initialize audio_request ''s3'' 0 = (Some audio_session, Done None False, no_trace)"
  by (simp add: initialize_def audio_request_def audio_session_def MB_def)

lemma healthy_gateway:
  assumes "fits fd" "1 \<le> n"
  shows "callGeminiAPI (gemini healthy_env pr fd) fd n = (Returned ''analysis'', \<lparr>calls = 1, waits = []\<rparr>)"
proof -
  have "gemini healthy_env pr fd 1 = Candidates (Some ''analysis'')" by (simp add: healthy_env_def)
  then show ?thesis
    using assms by (simp add: callGeminiAPI_def no_trace_def loop_success)
qed

lemma healthy_call_with_file:
  assumes "1 \<le> n"
  shows "call_with_file healthy_env pr p n = (Returned ''analysis'', \<lparr>calls = 1, waits = []\<rparr>)"
proof -
  have r: "readFile healthy_env p = Some (5 * MB)" by (simp add: healthy_env_def)
  have f: "fits (Some \<lparr>mimeType = getMimeType p, byteLength = 5 * MB\<rparr>)"
    by (simp add: fits_def MB_def)
  show ?thesis
    using assms by (simp add: call_with_file_def r Let_def healthy_gateway [OF f])
qed



lemma rate_limited_gateway:
  assumes "fits fd"
  shows "callGeminiAPI (gemini rate_limited_env pr fd) fd 3 =
           (Thrown ''RATE_LIMITED'', \<lparr>calls = 3, waits = [30000, 60000]\<rparr>)"
    and "callGeminiAPI (gemini rate_limited_env pr fd) fd 2 =
           (Thrown ''RATE_LIMITED'', \<lparr>calls = 2, waits = [30000]\<rparr>)"
proof -
  have c: "\<And>n. \<forall>k. 1 \<le> k \<and> k \<le> n \<longrightarrow>
             response_class (gemini rate_limited_env pr fd k) = Some RateLimited \<and> RateLimited \<noteq> BadRequest"
    by (simp add: rate_limited_env_def classify_def)
  have u: "[Suc 0..<3] = [Suc 0, 2]" "[Suc 0..<2] = [Suc 0]" by (simp_all add: upt_rec)
  show "callGeminiAPI (gemini rate_limited_env pr fd) fd 3 =
           (Thrown ''RATE_LIMITED'', \<lparr>calls = 3, waits = [30000, 60000]\<rparr>)"
    using gateway_all_fail [of 3 fd "gemini rate_limited_env pr fd" "\<lambda>k. RateLimited", OF _ assms c]
    by (simp add: u)
  show "callGeminiAPI (gemini rate_limited_env pr fd) fd 2 =
           (Thrown ''RATE_LIMITED'', \<lparr>calls = 2, waits = [30000]\<rparr>)"
    using gateway_all_fail [of 2 fd "gemini rate_limited_env pr fd" "\<lambda>k. RateLimited", OF _ assms c]
    by (simp add: u)
qed

lemma not_overload_rate_limited: "\<not> overload_message ''RATE_LIMITED''"
  by (simp add: overload_message_def)

lemma rate_limited_technical:
  "technical_analysis rate_limited_env analysed_session =
     (analysed_session\<lparr>status := ''analyzing_technical''\<rparr>,
      Fail 500 ''Failed to perform technical analysis'' [], \<lparr>calls = 3, waits = [30000, 60000]\<rparr>)"
proof -
  have f: "fits None" by (simp add: fits_def)
  have r: "truthy (results analysed_session ''transcription'')" "truthy (results analysed_session ''cvAnalysis'')"
    by (simp_all add: analysed_session_def)
  show ?thesis
    by (simp add: technical_analysis_def Let_def r rate_limited_gateway(1) [OF f])
qed

lemma rate_limited_analyze_cv:
  "analyze_cv rate_limited_env s =
     (s\<lparr>status := ''error''\<rparr>, Fail 500 ''Failed to analyze CV'' [], \<lparr>calls = 2, waits = [30000]\<rparr>)"
proof -
  have r: "readFile rate_limited_env (cvPath s) = Some (5 * MB)" by (simp add: rate_limited_env_def)
  have f: "fits (Some \<lparr>mimeType = getMimeType (cvPath s), byteLength = 5 * MB\<rparr>)"
    by (simp add: fits_def MB_def)
  show ?thesis
    by (simp add: analyze_cv_def Let_def call_with_file_def r rate_limited_gateway(2) [OF f]
        analyze_cv_settle_def not_overload_rate_limited)
qed

text \<open>
  Claim C1 against the code. With both prerequisites stored and a provider that answers
  every attempt with a rate limit, the technical-analysis request fails with 500 after
  three calls and writes no result, but \<^verbatim>\<open>status\<close> stays \<^verbatim>\<open>analyzing_technical\<close>: the handler's
  \<^verbatim>\<open>catch\<close> does not assign \<^verbatim>\<open>error\<close>. The CV-analysis handler does assign it on the same
  failure.
\<close>

theorem technical_analysis_failure_keeps_status:
  "status (fst (technical_analysis rate_limited_env analysed_session)) = ''analyzing_technical''
   \<and> fst (snd (technical_analysis rate_limited_env analysed_session)) =
       Fail 500 ''Failed to perform technical analysis'' []
   \<and> snd (snd (technical_analysis rate_limited_env analysed_session)) =
       \<lparr>calls = 3, waits = [30000, 60000]\<rparr>
   \<and> results (fst (technical_analysis rate_limited_env analysed_session)) ''technicalAnalysis'' = None
   \<and> status (fst (analyze_cv rate_limited_env analysed_session)) = ''error''"
  by (simp add: rate_limited_technical rate_limited_analyze_cv) (simp add: analysed_session_def)

text \<open>
  An instance of the above for C1: after the failed technical analysis the status is not
  \<^verbatim>\<open>error\<close>.
\<close>

theorem technical_analysis_failure_keeps_status_witness:
  "status (fst (technical_analysis rate_limited_env analysed_session)) \<noteq> ''error''
   \<and> results (fst (technical_analysis rate_limited_env analysed_session)) ''technicalAnalysis'' = None"
  using technical_analysis_failure_keeps_status
  by simp








text \<open>
  An instance of C4: a retry of CV analysis on a session that holds an earlier result.
\<close>

theorem retry_resets_and_reinvokes_witness:
  "fst (retry ''cv_analysis'' analysed_session) =
     analysed_session\<lparr>status := ''initialized'',
       results := (results analysed_session)(''cvAnalysis'' := None)\<rparr>
   \<and> results (fst (retry_stage healthy_env ''cv_analysis'' analysed_session)) ''cvAnalysis'' = Some ''analysis''
   \<and> results (fst (retry_stage healthy_env ''cv_analysis'' analysed_session)) ''transcription'' =
       Some ''Transcript text''"
proof -
  have m: "''cv_analysis'' \<in> set stage_names" by (simp add: stage_names_def)
  note T = retry_resets_and_reinvokes [OF m, of analysed_session healthy_env None]
  have a: "fst (retry ''cv_analysis'' analysed_session) =
     analysed_session\<lparr>status := ''initialized'',
       results := (results analysed_session)(''cvAnalysis'' := None)\<rparr>"
    using T [THEN conjunct1] by (simp add: predecessor_completed_def stage_key_def)
  have b: "results (fst (retry_stage healthy_env ''cv_analysis'' analysed_session)) ''cvAnalysis'' = Some ''analysis''"
    using T [THEN conjunct2, THEN conjunct2, THEN conjunct1]
    by (simp add: stage_key_def stage_result_def stage_admits_def stage_call_def
        healthy_call_with_file)
  have "''transcription'' \<noteq> stage_key ''cv_analysis''" by (simp add: stage_key_def)
  then have c: "results (fst (retry_stage healthy_env ''cv_analysis'' analysed_session)) ''transcription'' =
       results analysed_session ''transcription''"
    using T [THEN conjunct2, THEN conjunct2, THEN conjunct2, THEN conjunct1] by blast
  show ?thesis using a b c by (simp add: analysed_session_def)
qed

text \<open>
  An instance of C7: an audio session after a retry, a force-fallback and a direct request
  for face analysis.
\<close>

theorem audio_session_never_analyses_face_witness:
  "results (run [Retry ''face_analysis'', Fallback ''face_analysis'', FaceAnalysis healthy_env,
                 AnalyzeCv healthy_env] audio_session) ''faceAnalysis'' = None
   \<and> fst (snd (face_analysis healthy_env
        (run [Retry ''face_analysis'', Fallback ''face_analysis'', FaceAnalysis healthy_env,
              AnalyzeCv healthy_env] audio_session))) =
       Fail 400 ''Face analysis only available for video files'' []
   \<and> fst (snd (fallback ''face_analysis''
        (run [Retry ''face_analysis'', Fallback ''face_analysis'', FaceAnalysis healthy_env,
              AnalyzeCv healthy_env] audio_session))) =
       Fail 400 ''Face analysis not available'' []
   \<and> fst (snd (retry_stage healthy_env ''face_analysis''
        (run [Retry ''face_analysis'', Fallback ''face_analysis'', FaceAnalysis healthy_env,
              AnalyzeCv healthy_env] audio_session))) =
       Fail 400 ''Face analysis only available for video files'' []"
proof -
  have m: "mediaType audio_session = Audio" by (simp add: audio_session_def)
  note T = audio_session_never_analyses_face [OF audio_initialize m,
      of "[Retry ''face_analysis'', Fallback ''face_analysis'', FaceAnalysis healthy_env,
           AnalyzeCv healthy_env]" healthy_env]
  show ?thesis
    using T [THEN conjunct1] T [THEN conjunct2, THEN conjunct1]
      T [THEN conjunct2, THEN conjunct2, THEN conjunct1]
      T [THEN conjunct2, THEN conjunct2, THEN conjunct2, THEN conjunct1]
    by simp
qed

end
